theory Spec2Isabelle
  imports Complex_Main "HOL-Library.Multiset"
begin

section \<open>JavaScript values\<close>

text \<open>
  The handlers receive untyped JavaScript values from the request. A number is a double:
  its finite values are kept by their exact rational value, beside the three special ones.
  \<open>JObj\<close> stands for any object or array; \<open>JUndefined\<close> for a missing field.
\<close>

datatype jsnum = NaN | PosInf | NegInf | Fin rat

datatype jsval = JUndefined | JNull | JBool bool | JNum jsnum | JStr string | JObj

text \<open>ToBoolean, as \<^verbatim>\<open>if (x)\<close> and \<^verbatim>\<open>!x\<close> apply it.\<close>

fun truthy :: "jsval \<Rightarrow> bool" where
  "truthy JUndefined = False"
| "truthy JNull = False"
| "truthy (JBool b) = b"
| "truthy (JNum NaN) = False"
| "truthy (JNum (Fin x)) = (x \<noteq> 0)"
| "truthy (JNum _) = True"
| "truthy (JStr s) = (s \<noteq> [])"
| "truthy JObj = True"

text \<open>
  \<^verbatim>\<open>Array.prototype.includes\<close> on an array of strings: only an equal string is found.
\<close>

fun array_includes :: "string list \<Rightarrow> jsval \<Rightarrow> bool" where
  "array_includes xs (JStr s) = (s \<in> set xs)"
| "array_includes xs _ = False"

text \<open>\<^verbatim>\<open>Array.prototype.join\<close> on an array of strings.\<close>

fun join :: "string list \<Rightarrow> string \<Rightarrow> string" where
  "join [] sep = []"
| "join [x] sep = x"
| "join (x # y # ys) sep = x @ sep @ join (y # ys) sep"

section \<open>Data model\<close>

type_synonym ident = string
type_synonym timestamp = int
type_synonym money = rat

record user =
  user_id :: ident
  user_email :: string
  username :: string
  walletBalance :: money

record withdrawal =
  wid :: ident
  transaction_id :: string
  amount :: money
  withdrawalMethod :: string
  walletAddress :: string
  status :: string
  createdAt :: timestamp
  processed_at :: "timestamp option"
  completed_at :: "timestamp option"
  userId :: ident
  admin_notes :: "jsval option"
  processed_by :: "ident option"

text \<open>The relational store: the two tables the controller reads and writes.\<close>

record store =
  withdrawals :: "withdrawal list"
  users :: "user list"

text \<open>The projection of the owning user that both queries include: id, email, username.\<close>

record user_proj =
  proj_id :: ident
  proj_email :: string
  proj_username :: string

definition project_user :: "user \<Rightarrow> user_proj" where
  "project_user u =
     \<lparr>proj_id = user_id u, proj_email = user_email u, proj_username = username u\<rparr>"

definition findUser :: "store \<Rightarrow> ident \<Rightarrow> user option" where
  "findUser st i = find (\<lambda>u. user_id u = i) (users st)"

text \<open>A withdrawal row of the listing: the ten selected attributes and the joined user.\<close>

record wrow =
  row_id :: ident
  row_transaction_id :: string
  row_amount :: money
  row_withdrawalMethod :: string
  row_walletAddress :: string
  row_status :: string
  row_createdAt :: timestamp
  row_processed_at :: "timestamp option"
  row_completed_at :: "timestamp option"
  row_userId :: ident
  row_user :: "user_proj option"

text \<open>One group of the statistics query: status, COUNT(id), SUM(amount).\<close>

record stat =
  stat_status :: string
  stat_count :: nat
  stat_totalAmount :: money

section \<open>Requests, responses and the environment\<close>

record admin =
  admin_id :: ident

text \<open>
  A request as the handlers read it: the errors found by the external validation, the path
  parameter, the two fields of the body (an object, as the JSON body parser leaves it; a
  missing field is \<open>JUndefined\<close>), the authenticated admin, absent when no one is, and the
  two query parameters, each absent or a string.
\<close>

record request =
  validation_errors :: "string list"
  param_id :: ident
  body_status :: jsval
  body_adminNotes :: jsval
  req_user :: "admin option"
  query_status :: "string option"
  query_userId :: "string option"

datatype resp_data =
    NoData
  | ListData "wrow list" nat
  | WithdrawalData withdrawal "user_proj option"
  | StatsData "stat list" nat money

record response =
  code :: nat
  success :: bool
  message :: string
  data :: resp_data

text \<open>The calls to the store that can be rejected by it, and the calls a handler made.\<close>

datatype db_call =
  CallFindAll | CallFindByPk | CallUserUpdate | CallWithdrawalUpdate | CallCommit
  | CallGroupBy | CallCount | CallSum

record update_data =
  upd_status :: string
  upd_processed_at :: timestamp
  upd_processed_by :: ident
  upd_admin_notes :: "jsval option"
  upd_completed_at :: "timestamp option"

datatype db_op =
    Begin
  | FindByPk ident
  | UserUpdate ident money
  | WithdrawalUpdate ident update_data
  | Commit
  | Rollback

text \<open>
  What a handler does not decide itself: which calls the store rejects (each rejection is
  an exception at the \<^verbatim>\<open>await\<close>), and what the two \<^verbatim>\<open>new Date()\<close> of the status update
  return.
\<close>

record env =
  fails :: "db_call \<Rightarrow> bool"
  date_processed :: timestamp
  date_completed :: timestamp

text \<open>
  Modelled from the spec: \<^verbatim>\<open>handleValidationErrors\<close> of utils/commonUtils is not among the
  sources. The spec gives it as the external validator whose failure is a ValidationError,
  a 400 response; it returns nothing when the request has no validation error. The wording
  of its message is not specified.
\<close>

definition handleValidationErrors :: "request \<Rightarrow> response option" where
  "handleValidationErrors req =
     (if validation_errors req = [] then None
      else Some \<lparr>code = 400, success = False, message = ''Validation failed'', data = NoData\<rparr>)"

text \<open>
  Modelled from the spec: \<^verbatim>\<open>sendErrorResponse\<close> of utils/commonUtils is not among the
  sources. It answers with the status code and the message it is given, in the common
  envelope with \<open>success\<close> false; the error detail is logged, not modelled.
\<close>

definition sendErrorResponse :: "nat \<Rightarrow> string \<Rightarrow> response" where
  "sendErrorResponse c msg = \<lparr>code = c, success = False, message = msg, data = NoData\<rparr>"

section \<open>The status transition\<close>

definition validStatuses :: "string list" where
  "validStatuses = [''confirmed'', ''completed'', ''failed'', ''rejected'']"

definition findByPk :: "store \<Rightarrow> ident \<Rightarrow> withdrawal option" where
  "findByPk st i = find (\<lambda>w. wid w = i) (withdrawals st)"

text \<open>The joined user of a loaded withdrawal.\<close>

definition include_user :: "store \<Rightarrow> withdrawal \<Rightarrow> user_proj option" where
  "include_user st w = map_option project_user (findUser st (userId w))"

text \<open>
  \<^verbatim>\<open>UPDATE users SET "walletBalance" = "walletBalance" + amount WHERE id = userId\<close>
\<close>

definition refund :: "store \<Rightarrow> ident \<Rightarrow> money \<Rightarrow> store" where
  "refund st uid a =
     st\<lparr>users :=
          map (\<lambda>u. if user_id u = uid then u\<lparr>walletBalance := walletBalance u + a\<rparr> else u)
            (users st)\<rparr>"

text \<open>
  The fields of \<open>updateData\<close> written to a row; \<open>completed_at\<close> only when it is present.
\<close>

definition apply_update :: "update_data \<Rightarrow> withdrawal \<Rightarrow> withdrawal" where
  "apply_update d w =
     (let w1 = w\<lparr>status := upd_status d,
                 processed_at := Some (upd_processed_at d),
                 processed_by := Some (upd_processed_by d)\<rparr>;
          w2 = (case upd_admin_notes d of
                  None \<Rightarrow> w1
                | Some n \<Rightarrow> w1\<lparr>admin_notes := Some n\<rparr>)
      in (case upd_completed_at d of
            None \<Rightarrow> w2
          | Some t \<Rightarrow> w2\<lparr>completed_at := Some t\<rparr>))"

definition update_withdrawal :: "store \<Rightarrow> ident \<Rightarrow> update_data \<Rightarrow> store" where
  "update_withdrawal st i d =
     st\<lparr>withdrawals :=
          map (\<lambda>w. if wid w = i then apply_update d w else w) (withdrawals st)\<rparr>"

text \<open>The requested status as the string it is once \<open>validStatuses\<close> includes it.\<close>

fun str_of :: "jsval \<Rightarrow> string" where
  "str_of (JStr s) = s"
| "str_of _ = []"

definition status_error :: "string \<Rightarrow> response" where
  "status_error msg = \<lparr>code = 400, success = False, message = msg, data = NoData\<rparr>"

text \<open>
  The handler, from the moment \<^verbatim>\<open>sequelize.transaction()\<close> has returned. It is given the
  committed store and returns the response, the committed store afterwards and the calls it
  made. Writes go to a working copy that \<open>Commit\<close> makes the store and \<open>Rollback\<close> drops.
  Every exception inside the \<^verbatim>\<open>try\<close> ends in the \<^verbatim>\<open>catch\<close>: rollback and the 500 response.
\<close>

definition caught :: "store \<Rightarrow> db_op list \<Rightarrow> response \<times> store \<times> db_op list" where
  "caught st tr =
     (sendErrorResponse 500 ''Failed to update withdrawal status'', st, tr @ [Rollback])"

text \<open>Lines 119 to 133: \<open>updateData\<close>, built from the request by the acting admin.\<close>

definition build_updateData :: "env \<Rightarrow> request \<Rightarrow> admin \<Rightarrow> update_data" where
  "build_updateData e req adm =
     (let s = str_of (body_status req) in
      \<lparr>upd_status = s,
       upd_processed_at = date_processed e,
       upd_processed_by = admin_id adm,
       upd_admin_notes =
         (if truthy (body_adminNotes req) then Some (body_adminNotes req) else None),
       upd_completed_at = (if s = ''completed'' then Some (date_completed e) else None)\<rparr>)"

text \<open>
  Lines 135 to 158: the refund for failed and rejected, the update of the row, the commit
  and the answer. The notification after the commit only logs; its own \<^verbatim>\<open>try\<close> keeps a
  missing joined user from reaching the response.
\<close>

definition write_and_commit ::
  "env \<Rightarrow> request \<Rightarrow> store \<Rightarrow> withdrawal \<Rightarrow> update_data \<Rightarrow> response \<times> store \<times> db_op list" where
  "write_and_commit e req st w updateData =
     (let s = str_of (body_status req);
          refunding = (s = ''failed'' \<or> s = ''rejected'');
          tr1 = [Begin, FindByPk (param_id req)]
                @ (if refunding then [UserUpdate (userId w) (amount w)] else []);
          tx1 = (if refunding then refund st (userId w) (amount w) else st);
          tr2 = tr1 @ [WithdrawalUpdate (wid w) updateData];
          tx2 = update_withdrawal tx1 (wid w) updateData
      in
        if refunding \<and> fails e CallUserUpdate then caught st tr1
        else if fails e CallWithdrawalUpdate then caught st tr2
        else if fails e CallCommit then caught st (tr2 @ [Commit])
        else
          (\<lparr>code = 200, success = True, message = ''Withdrawal '' @ s @ '' successfully'',
            data = WithdrawalData (apply_update updateData w) (include_user st w)\<rparr>,
           tx2, tr2 @ [Commit]))"

definition updateWithdrawalStatus ::
  "env \<Rightarrow> request \<Rightarrow> store \<Rightarrow> response \<times> store \<times> db_op list" where
  "updateWithdrawalStatus e req st =
     (case handleValidationErrors req of
        Some validationError \<Rightarrow> (validationError, st, [Begin, Rollback])
      | None \<Rightarrow>
        if \<not> truthy (body_status req) then
          (status_error ''Status is required'', st, [Begin, Rollback])
        else if \<not> array_includes validStatuses (body_status req) then
          (status_error (''Invalid status. Must be one of: '' @ join validStatuses '', ''),
           st, [Begin, Rollback])
        else if fails e CallFindByPk then caught st [Begin, FindByPk (param_id req)]
        else
          (case findByPk st (param_id req) of
             None \<Rightarrow>
               (\<lparr>code = 404, success = False, message = ''Withdrawal not found'',
                 data = NoData\<rparr>,
                st, [Begin, FindByPk (param_id req), Rollback])
           | Some w \<Rightarrow>
               if status w \<noteq> ''pending'' \<and> status w \<noteq> ''confirmed'' then
                 (status_error (''Withdrawal cannot be updated from '' @ status w @ '' status''),
                  st, [Begin, FindByPk (param_id req), Rollback])
               else
                 (case req_user req of
                    None \<Rightarrow> caught st [Begin, FindByPk (param_id req)]
                  | Some adm \<Rightarrow>
                      write_and_commit e req st w (build_updateData e req adm))))"

text \<open>
  What a committed transition leaves: the store after the refund (for failed and rejected)
  and the update of the row, and the calls made up to the commit.
\<close>

definition committed_store ::
  "env \<Rightarrow> request \<Rightarrow> store \<Rightarrow> withdrawal \<Rightarrow> update_data \<Rightarrow> store" where
  "committed_store e req st w d =
     update_withdrawal
       (if str_of (body_status req) = ''failed'' \<or> str_of (body_status req) = ''rejected''
        then refund st (userId w) (amount w) else st)
       (wid w) d"

definition committed_trace :: "request \<Rightarrow> withdrawal \<Rightarrow> update_data \<Rightarrow> db_op list" where
  "committed_trace req w d =
     [Begin, FindByPk (param_id req)]
     @ (if str_of (body_status req) = ''failed'' \<or> str_of (body_status req) = ''rejected''
        then [UserUpdate (userId w) (amount w)] else [])
     @ [WithdrawalUpdate (wid w) d, Commit]"

section \<open>A store and requests to run the handlers on\<close>

text \<open>
  The scenarios of the specification: user 7 with balance 100 owns withdrawal 1 (amount 50,
  pending) and withdrawal 2 (completed); admin 9 acts.
\<close>

definition ex_user :: user where
  "ex_user = \<lparr>user_id = ''7'', user_email = ''ann@example.com'', username = ''ann'',
               walletBalance = 100\<rparr>"

definition ex_w1 :: withdrawal where
  "ex_w1 = \<lparr>wid = ''1'', transaction_id = ''tx-1'', amount = 50, withdrawalMethod = ''crypto'',
             walletAddress = ''addr-1'', status = ''pending'', createdAt = 1000,
             processed_at = None, completed_at = None, userId = ''7'', admin_notes = None,
             processed_by = None\<rparr>"

definition ex_w2 :: withdrawal where
  "ex_w2 = \<lparr>wid = ''2'', transaction_id = ''tx-2'', amount = 30, withdrawalMethod = ''crypto'',
             walletAddress = ''addr-2'', status = ''completed'', createdAt = 2000,
             processed_at = Some 2500, completed_at = Some 2500, userId = ''7'',
             admin_notes = None, processed_by = Some ''9''\<rparr>"

definition ex_store :: store where
  "ex_store = \<lparr>withdrawals = [ex_w1, ex_w2], users = [ex_user]\<rparr>"

definition ex_env :: env where
  "ex_env = \<lparr>fails = (\<lambda>c. False), date_processed = 5000, date_completed = 5001\<rparr>"

definition ex_req :: "ident \<Rightarrow> jsval \<Rightarrow> request" where
  "ex_req i s = \<lparr>validation_errors = [], param_id = i, body_status = s,
                  body_adminNotes = JUndefined, req_user = Some \<lparr>admin_id = ''9''\<rparr>,
                  query_status = None, query_userId = None\<rparr>"

text \<open>The same request for a confirmation, with no \<^verbatim>\<open>req.user\<close>.\<close>

definition ex_req_no_admin :: request where
  "ex_req_no_admin = (ex_req ''1'' (JStr ''confirmed''))\<lparr>req_user := None\<rparr>"

section \<open>The listing\<close>

text \<open>A query parameter that \<^verbatim>\<open>if (status)\<close> takes into the where clause: present and not empty.\<close>

fun given :: "string option \<Rightarrow> bool" where
  "given None = False"
| "given (Some s) = (s \<noteq> [])"

definition whereClause :: "request \<Rightarrow> withdrawal \<Rightarrow> bool" where
  "whereClause req w =
     ((if given (query_status req) then Some (status w) = query_status req else True)
      \<and> (if given (query_userId req) then Some (userId w) = query_userId req else True))"

definition to_row :: "store \<Rightarrow> withdrawal \<Rightarrow> wrow" where
  "to_row st w =
     \<lparr>row_id = wid w, row_transaction_id = transaction_id w, row_amount = amount w,
      row_withdrawalMethod = withdrawalMethod w, row_walletAddress = walletAddress w,
      row_status = status w, row_createdAt = createdAt w, row_processed_at = processed_at w,
      row_completed_at = completed_at w, row_userId = userId w,
      row_user = include_user st w\<rparr>"

text \<open>
  \<^verbatim>\<open>Withdrawal.findAll\<close> with the where clause, the joined user and
  \<^verbatim>\<open>ORDER BY "createdAt" DESC\<close>. The store may return rows of equal creation time in any
  order; the sort here keeps them in table order.
\<close>

definition findAll :: "request \<Rightarrow> store \<Rightarrow> wrow list" where
  "findAll req st =
     map (to_row st) (sort_key (\<lambda>w. - createdAt w) (filter (whereClause req) (withdrawals st)))"

definition getAllWithdrawals :: "env \<Rightarrow> request \<Rightarrow> store \<Rightarrow> response" where
  "getAllWithdrawals e req st =
     (case handleValidationErrors req of
        Some validationError \<Rightarrow> validationError
      | None \<Rightarrow>
        if fails e CallFindAll then sendErrorResponse 500 ''Failed to retrieve withdrawals''
        else
          let withdrawals = findAll req st in
          \<lparr>code = 200, success = True,
           message = (if length withdrawals \<noteq> 0 then ''Withdrawals retrieved successfully''
                      else ''No withdrawals found''),
           data = ListData withdrawals (length withdrawals)\<rparr>)"

section \<open>The statistics\<close>

text \<open>
  \<^verbatim>\<open>SELECT status, COUNT(id), SUM(amount) FROM withdrawals GROUP BY status\<close>: one group for
  each status that occurs. Amounts are exact decimals.
\<close>

definition group_by_status :: "withdrawal list \<Rightarrow> stat list" where
  "group_by_status ws =
     map (\<lambda>s. \<lparr>stat_status = s,
               stat_count = length (filter (\<lambda>w. status w = s) ws),
               stat_totalAmount = sum_list (map amount (filter (\<lambda>w. status w = s) ws))\<rparr>)
         (remdups (map status ws))"

text \<open>\<^verbatim>\<open>Withdrawal.sum('amount')\<close>: SQL's SUM over no rows is null.\<close>

definition sum_amount :: "withdrawal list \<Rightarrow> money option" where
  "sum_amount ws = (if ws = [] then None else Some (sum_list (map amount ws)))"

text \<open>\<^verbatim>\<open>totalAmount || 0\<close>: null and zero both give zero.\<close>

fun or_zero :: "money option \<Rightarrow> money" where
  "or_zero None = 0"
| "or_zero (Some v) = (if v = 0 then 0 else v)"

definition getWithdrawalStats :: "env \<Rightarrow> request \<Rightarrow> store \<Rightarrow> response" where
  "getWithdrawalStats e req st =
     (case handleValidationErrors req of
        Some validationError \<Rightarrow> validationError
      | None \<Rightarrow>
        if fails e CallGroupBy \<or> fails e CallCount \<or> fails e CallSum then
          sendErrorResponse 500 ''Failed to retrieve withdrawal statistics''
        else
          let stats = group_by_status (withdrawals st);
              totalWithdrawals = length (withdrawals st);
              totalAmount = sum_amount (withdrawals st)
          in \<lparr>code = 200, success = True,
              message = ''Withdrawal statistics retrieved successfully'',
              data = StatsData stats totalWithdrawals (or_zero totalAmount)\<rparr>)"

text \<open>
  An empty store, a store with two more pending withdrawals, one of them of a user 8 who has
  no row, and listing requests.
\<close>

definition empty_store :: store where
  "empty_store = \<lparr>withdrawals = [], users = []\<rparr>"

definition ex_w3 :: withdrawal where
  "ex_w3 = \<lparr>wid = ''3'', transaction_id = ''tx-3'', amount = 20, withdrawalMethod = ''bank'',
             walletAddress = ''addr-3'', status = ''pending'', createdAt = 3000,
             processed_at = None, completed_at = None, userId = ''7'', admin_notes = None,
             processed_by = None\<rparr>"

definition ex_w4 :: withdrawal where
  "ex_w4 = \<lparr>wid = ''4'', transaction_id = ''tx-4'', amount = 10, withdrawalMethod = ''bank'',
             walletAddress = ''addr-4'', status = ''pending'', createdAt = 1500,
             processed_at = None, completed_at = None, userId = ''8'', admin_notes = None,
             processed_by = None\<rparr>"

definition ex_store3 :: store where
  "ex_store3 = \<lparr>withdrawals = [ex_w1, ex_w2, ex_w3, ex_w4], users = [ex_user]\<rparr>"

definition ex_list_req :: "string option \<Rightarrow> string option \<Rightarrow> request" where
  "ex_list_req s u = (ex_req [] JUndefined)\<lparr>query_status := s, query_userId := u\<rparr>"

section \<open>The ROI accrual email\<close>

text \<open>
  \<^verbatim>\<open>Number.prototype.toFixed\<close>, as ECMAScript defines it on the exact value of the number.
  The decimal digits of a natural number come first.
\<close>

definition digit_char :: "nat \<Rightarrow> char" where
  "digit_char d = ''0123456789'' ! d"

fun digits :: "nat \<Rightarrow> string" where
  "digits n = (if n < 10 then [digit_char n] else digits (n div 10) @ [digit_char (n mod 10)])"

declare digits.simps [simp del]

text \<open>The number that a string of decimal digits denotes, to say what \<open>toFixed\<close> prints.\<close>

definition digit_value :: "char \<Rightarrow> nat" where
  "digit_value c = of_char c - 48"

definition digits_value :: "string \<Rightarrow> nat" where
  "digits_value s = foldl (\<lambda>acc c. 10 * acc + digit_value c) 0 s"

text \<open>
  A number that is not finite is printed by name. Below zero the sign is put in front of
  the digits of the absolute value. From \<open>10^21\<close> on the result is the number's default
  string, which the first argument stands for. Otherwise \<open>n\<close> is the integer nearest to
  \<open>x * 10^f\<close>, the larger one of two; its digits are padded with zeros to \<open>f + 1\<close> and the
  point is put before the last \<open>f\<close>.
\<close>

definition fixed_digits :: "rat \<Rightarrow> nat \<Rightarrow> string" where
  "fixed_digits x f =
     (let n = nat \<lfloor>x * 10 ^ f + 1 / 2\<rfloor>;
          m = (if n = 0 then ''0'' else digits n);
          k = length m;
          m' = (if k \<le> f then replicate (f + 1 - k) (CHR ''0'') @ m else m);
          k' = (if k \<le> f then f + 1 else k)
      in if f \<noteq> 0 then take (k' - f) m' @ ''.'' @ drop (k' - f) m' else m')"

fun toFixed :: "(rat \<Rightarrow> string) \<Rightarrow> jsnum \<Rightarrow> nat \<Rightarrow> string" where
  "toFixed numberToString NaN f = ''NaN''"
| "toFixed numberToString PosInf f = ''Infinity''"
| "toFixed numberToString NegInf f = ''-Infinity''"
| "toFixed numberToString (Fin x) f =
     (let s = (if x < 0 then ''-'' else []);
          x' = (if x < 0 then - x else x)
      in if x' \<ge> 10 ^ 21 then s @ numberToString x' else s @ fixed_digits x' f)"

text \<open>
  The argument of \<open>roiAccrualEmail\<close>, an object with six fields. The amount is kept as the
  JavaScript value it is, since a method is called on it; the other fields are only put
  into the text and are the strings (for the date, the timestamp) they are put in as.
\<close>

record roi_args =
  email :: string
  planName :: string
  roiAmount :: jsval
  transactionId :: string
  date :: timestamp
  investmentId :: string

record mail_options =
  mail_from :: string
  mail_to :: string
  subject :: string
  html :: string

datatype js_error = TypeError | Error string | TransportError string

datatype log_entry = ConsoleLog string | ConsoleError string js_error

text \<open>
  What the formatter reads from outside: the sender address of the process environment,
  the locale's rendering of a date, the current year, the default string of a large number,
  and the injected \<^verbatim>\<open>sendMail\<close>, which resolves (\<open>None\<close>) or rejects with an error.
\<close>

record mail_env =
  EMAIL_USER :: string
  toLocaleDateString :: "timestamp \<Rightarrow> string"
  getFullYear :: nat
  numberToString :: "rat \<Rightarrow> string"
  sendMail :: "mail_options \<Rightarrow> js_error option"

text \<open>
  The template literal. Its fixed text is cut at the eight interpolations into the pieces
  \<open>tpl0\<close> to \<open>tpl8\<close>; a piece is a run of whole lines followed by the beginning of the line
  that holds the next interpolation. Characters are the bytes of the UTF-8 encoding.
\<close>

fun text_lines :: "string list \<Rightarrow> string" where
  "text_lines [] = []"
| "text_lines (l # ls) = l @ CHR 0x0A # text_lines ls"

definition tpl0 :: string where
  \<open>tpl0 =
     text_lines
       [[],
        ''            <!DOCTYPE html>'',
        ''            <html>'',
        ''            <head>'',
        ''              <meta charset="UTF-8">'',
        ''              <meta name="viewport" content="width=device-width, initial-scale=1.0">'',
        ''              <title>Daily ROI Credit - Gratoms</title>'',
        ''              <style>'',
        ''                body { font-family: 'Segoe UI', Tahoma, Geneva, Verdana, sans-serif; line-height: 1.6; color: #333; max-width: 600px; margin: 0 auto; padding: 20px; background-color: #f9f9f9; }'',
        ''                .header { background: linear-gradient(135deg, #8b5cf6 0%, #7c3aed 100%); padding: 30px; text-align: center; border-radius: 10px 10px 0 0; }'',
        ''                .logo { color: white; font-size: 28px; font-weight: bold; margin: 0; }'',
        ''                .content { background: white; padding: 30px; border-radius: 0 0 10px 10px; box-shadow: 0 4px 6px rgba(0, 0, 0, 0.1); }'',
        ''                .status-badge { '',
        ''                  background: #10b981; color: white; padding: 8px 16px; border-radius: 20px; '',
        ''                  font-size: 14px; font-weight: bold; display: inline-block; margin-bottom: 20px;'',
        ''                }'',
        ''                .amount { font-size: 32px; font-weight: bold; color: #7c3aed; margin: 10px 0; }'',
        ''                .investment-details { background: #faf5ff; padding: 20px; border-radius: 8px; margin: 20px 0; }'',
        ''                .detail-row { display: flex; justify-content: space-between; padding: 8px 0; border-bottom: 1px solid #ede9fe; }'',
        ''                .detail-row:last-child { border-bottom: none; }'',
        ''                .progress-bar { background: #ede9fe; height: 8px; border-radius: 4px; margin: 15px 0; overflow: hidden; }'',
        ''                .progress-fill { background: linear-gradient(90deg, #8b5cf6 0%, #7c3aed 100%); height: 100%; width: 0%; transition: width 2s; }'',
        ''                .footer { text-align: center; margin-top: 30px; padding-top: 20px; border-top: 1px solid #e2e8f0; color: #718096; }'',
        ''              </style>'',
        ''            </head>'',
        ''            <body>'',
        ''              <div class="header">'',
        ''                <h1 class="logo">'' @ [CHR 0xF0, CHR 0x9F, CHR 0x92, CHR 0xB0] @ '' Daily ROI Credited</h1>'',
        ''              </div>'',
        ''              '',
        ''              <div class="content">'',
        ''                <div class="status-badge">'' @ [CHR 0xE2, CHR 0x9C, CHR 0x85] @ '' CREDITED</div>'',
        ''                '',
        ''                <p>Your daily ROI has been successfully credited to your account.</p>'',
        ''                '',
        ''                <div style="text-align: center; margin: 30px 0;">'']
     @ ''                  <div class="amount">''\<close>

definition tpl1 :: string where
  \<open>tpl1 =
     text_lines
       ['' USD</div>'']
     @ ''                  <p>credited for <strong>''\<close>

definition tpl2 :: string where
  \<open>tpl2 =
     text_lines
       [''</strong></p>'',
        ''                </div>'',
        ''        '',
        ''                <div class="investment-details">'',
        ''                  <h3 style="margin-top: 0;">Transaction Details</h3>'',
        ''                  <div class="detail-row">'',
        ''                    <span>Transaction ID:</span>'']
     @ ''                    <span><strong>''\<close>

definition tpl3 :: string where
  \<open>tpl3 =
     text_lines
       [''</strong></span>'',
        ''                  </div>'',
        ''                  <div class="detail-row">'',
        ''                    <span>Investment ID:</span>'']
     @ ''                    <span><strong>''\<close>

definition tpl4 :: string where
  \<open>tpl4 =
     text_lines
       [''</strong></span>'',
        ''                  </div>'',
        ''                  <div class="detail-row">'',
        ''                    <span>Plan Name:</span>'']
     @ ''                    <span><strong>''\<close>

definition tpl5 :: string where
  \<open>tpl5 =
     text_lines
       [''</strong></span>'',
        ''                  </div>'',
        ''                  <div class="detail-row">'',
        ''                    <span>ROI Amount:</span>'']
     @ ''                    <span><strong>''\<close>

definition tpl6 :: string where
  \<open>tpl6 =
     text_lines
       ['' USD</strong></span>'',
        ''                  </div>'',
        ''                  <div class="detail-row">'',
        ''                    <span>Date:</span>'']
     @ ''                    <span><strong>''\<close>

definition tpl7 :: string where
  \<open>tpl7 =
     text_lines
       [''</strong></span>'',
        ''                  </div>'',
        ''                </div>'',
        ''        '',
        ''                <div class="progress-bar">'',
        ''                  <div class="progress-fill" style="width: 0%"></div>'',
        ''                </div>'',
        ''                <p style="text-align: center; color: #6b7280;">Your investment is growing daily</p>'',
        ''        '',
        ''                <p><strong>'' @ [CHR 0xF0, CHR 0x9F, CHR 0x92, CHR 0xA1] @ '' Tip:</strong> Check your transaction history in your dashboard for more details.</p>'',
        ''              </div>'',
        ''              '',
        ''              <div class="footer">'']
     @ ''                <p>'' @ [CHR 0xC2, CHR 0xA9] @ '' ''\<close>

definition tpl8 :: string where
  \<open>tpl8 =
     text_lines
       ['' Gratoms. All rights reserved.</p>'',
        ''                <p>Happy investing! '' @ [CHR 0xF0, CHR 0x9F, CHR 0x93, CHR 0x8A] @ ''</p>'',
        ''              </div>'',
        ''          '',
        ''              <script>'',
        ''                setTimeout(() => {'',
        ''                  document.querySelector('.progress-fill').style.width = '100%';'',
        ''                }, 1000);'',
        ''              </script>'',
        ''            </body>'',
        ''            </html>'']
     @ ''          ''\<close>

definition roi_html :: "mail_env \<Rightarrow> roi_args \<Rightarrow> string \<Rightarrow> string" where
  "roi_html me a amt =
     tpl0 @ amt @ tpl1 @ planName a @ tpl2 @ transactionId a @ tpl3 @ investmentId a
     @ tpl4 @ planName a @ tpl5 @ amt @ tpl6 @ toLocaleDateString me (date a)
     @ tpl7 @ digits (getFullYear me) @ tpl8"

text \<open>
  Building \<open>mailOptions\<close>. \<^verbatim>\<open>roiAmount.toFixed(2)\<close> throws a TypeError unless the amount is
  a number: \<^verbatim>\<open>undefined\<close> and \<^verbatim>\<open>null\<close> have no properties, and a string, a boolean or a
  plain object has no \<^verbatim>\<open>toFixed\<close>.
\<close>

definition build_mailOptions :: "mail_env \<Rightarrow> roi_args \<Rightarrow> js_error + mail_options" where
  "build_mailOptions me a =
     (case roiAmount a of
        JNum x \<Rightarrow>
          Inr \<lparr>mail_from = EMAIL_USER me, mail_to = email a,
               subject = ''Daily ROI Credit - Gratoms'',
               html = roi_html me a (toFixed (numberToString me) x 2)\<rparr>
      | _ \<Rightarrow> Inl TypeError)"

text \<open>
  The formatter, called with an object: what it returns to its caller (an error thrown, or
  nothing), the mails it handed to \<^verbatim>\<open>sendMail\<close> and what it logged. The \<^verbatim>\<open>try\<close> encloses
  both the building of the options and the sending. The destructuring of the parameter
  comes before the \<^verbatim>\<open>try\<close>, so a call with no object at all throws its own TypeError; the
  model starts from an object.
\<close>

record roi_result =
  outcome :: "js_error + unit"
  sent :: "mail_options list"
  logs :: "log_entry list"

definition roiAccrualEmail :: "mail_env \<Rightarrow> roi_args \<Rightarrow> roi_result" where
  "roiAccrualEmail me a =
     (case build_mailOptions me a of
        Inl error \<Rightarrow>
          \<lparr>outcome = Inl (Error ''Failed to send ROI email''), sent = [],
           logs = [ConsoleError ''ROI email sending error:'' error]\<rparr>
      | Inr mailOptions \<Rightarrow>
          (case sendMail me mailOptions of
             Some error \<Rightarrow>
               \<lparr>outcome = Inl (Error ''Failed to send ROI email''), sent = [mailOptions],
                logs = [ConsoleError ''ROI email sending error:'' error]\<rparr>
           | None \<Rightarrow>
               \<lparr>outcome = Inr (), sent = [mailOptions],
                logs = [ConsoleLog (''ROI accrual email sent to '' @ email a
                                     @ '' for transaction '' @ transactionId a)]\<rparr>))"

text \<open>Occurrences of a pattern in a text, counted at every position.\<close>

fun count_sub :: "string \<Rightarrow> string \<Rightarrow> nat" where
  "count_sub p [] = 0"
| "count_sub p (c # cs) = (if take (length p) (c # cs) = p then 1 else 0) + count_sub p cs"

text \<open>
  An accrual of 12.5, an environment whose \<^verbatim>\<open>sendMail\<close> always resolves and one whose
  \<^verbatim>\<open>sendMail\<close> always rejects.
\<close>

definition ex_mail_env :: mail_env where
  "ex_mail_env = \<lparr>EMAIL_USER = ''noreply@example.com'',
                   toLocaleDateString = (\<lambda>t. ''11/2/2026''),
                   getFullYear = 2026,
                   numberToString = (\<lambda>x. ''1e+21''),
                   sendMail = (\<lambda>m. None)\<rparr>"

definition ex_args :: "string \<Rightarrow> jsval \<Rightarrow> roi_args" where
  "ex_args plan amt = \<lparr>email = ''ann@example.com'', planName = plan, roiAmount = amt,
                        transactionId = ''tx-9'', date = 1793577600000,
                        investmentId = ''inv-4''\<rparr>"

definition ex_mail_env_failing :: mail_env where
  "ex_mail_env_failing = ex_mail_env\<lparr>sendMail := (\<lambda>m. Some (TransportError ''ECONNREFUSED''))\<rparr>"

section \<open>Facts about the store operations\<close>

lemma find_map_upd:
  assumes "\<And>x. k (g x) = k x"
  shows "find (\<lambda>x. k x = i) (map (\<lambda>x. if k x = i then g x else x) xs)
         = map_option g (find (\<lambda>x. k x = i) xs)"
  using assms by (induction xs) auto

lemma find_map_other:
  assumes "\<And>x. k (g x) = k x" and "j \<noteq> i"
  shows "find (\<lambda>x. k x = j) (map (\<lambda>x. if k x = i then g x else x) xs)
         = find (\<lambda>x. k x = j) xs"
  using assms by (induction xs) auto

lemma wid_apply_update: "wid (apply_update d w) = wid w"
  by (simp add: apply_update_def Let_def split: option.splits)

lemma findByPk_wid: "findByPk st i = Some w \<Longrightarrow> wid w = i"
  by (auto simp: findByPk_def find_Some_iff)

lemma findByPk_update:
  "findByPk (update_withdrawal st i d) i = map_option (apply_update d) (findByPk st i)"
  unfolding findByPk_def update_withdrawal_def
  by (simp add: find_map_upd [where k = wid] wid_apply_update)

lemma findByPk_refund: "findByPk (refund st uid a) i = findByPk st i"
  by (simp add: findByPk_def refund_def)

lemma findUser_update: "findUser (update_withdrawal st i d) j = findUser st j"
  by (simp add: findUser_def update_withdrawal_def)

lemma findUser_refund:
  "findUser (refund st uid a) uid
     = map_option (\<lambda>u. u\<lparr>walletBalance := walletBalance u + a\<rparr>) (findUser st uid)"
  unfolding findUser_def refund_def
  by (simp add: find_map_upd [where k = user_id])

lemma findUser_refund_other:
  "j \<noteq> uid \<Longrightarrow> findUser (refund st uid a) j = findUser st j"
  unfolding findUser_def refund_def
  by (simp add: find_map_other [where k = user_id])

lemma status_apply_update: "status (apply_update d w) = upd_status d"
  by (simp add: apply_update_def Let_def split: option.splits)

lemma processed_apply_update:
  "processed_at (apply_update d w) = Some (upd_processed_at d)"
  "processed_by (apply_update d w) = Some (upd_processed_by d)"
  by (simp_all add: apply_update_def Let_def split: option.splits)

lemma completed_apply_update:
  "completed_at (apply_update d w)
     = (case upd_completed_at d of None \<Rightarrow> completed_at w | Some t \<Rightarrow> Some t)"
  by (simp add: apply_update_def Let_def split: option.splits)

lemma build_updateData_fields:
  "upd_status (build_updateData e req adm) = str_of (body_status req)"
  "upd_processed_at (build_updateData e req adm) = date_processed e"
  "upd_processed_by (build_updateData e req adm) = admin_id adm"
  "upd_completed_at (build_updateData e req adm)
     = (if str_of (body_status req) = ''completed'' then Some (date_completed e) else None)"
  by (simp_all add: build_updateData_def Let_def)

lemma valid_status_truthy: "array_includes validStatuses v \<Longrightarrow> truthy v"
  by (cases v) (auto simp: validStatuses_def)

section \<open>The outcomes of a status transition\<close>

lemma write_and_commit_cases:
  assumes "write_and_commit e req st w d = (resp, st', tr)"
  shows "(code resp = 500 \<and> st' = st \<and> last tr = Rollback)
       \<or> (code resp = 200 \<and> st' = committed_store e req st w d
            \<and> tr = committed_trace req w d)"
  using assms
  by (auto simp: write_and_commit_def caught_def sendErrorResponse_def Let_def
                 committed_store_def committed_trace_def
           split: if_splits)

lemma write_and_commit_ok:
  assumes "\<not> fails e CallUserUpdate" "\<not> fails e CallWithdrawalUpdate" "\<not> fails e CallCommit"
  shows "code (fst (write_and_commit e req st w d)) = 200"
  using assms by (simp add: write_and_commit_def Let_def)

lemma update_cases:
  assumes run: "updateWithdrawalStatus e req st = (resp, st', tr)"
  shows "(code resp \<noteq> 200 \<and> st' = st \<and> last tr = Rollback)
       \<or> (\<exists>w adm. code resp = 200
              \<and> tr = committed_trace req w (build_updateData e req adm)
              \<and> validation_errors req = []
              \<and> array_includes validStatuses (body_status req)
              \<and> findByPk st (param_id req) = Some w
              \<and> (status w = ''pending'' \<or> status w = ''confirmed'')
              \<and> req_user req = Some adm
              \<and> st' = committed_store e req st w (build_updateData e req adm))"
proof (cases "validation_errors req = [] \<and> array_includes validStatuses (body_status req)
              \<and> \<not> fails e CallFindByPk")
  case False
  with run show ?thesis
    by (auto simp: updateWithdrawalStatus_def handleValidationErrors_def status_error_def
                   caught_def sendErrorResponse_def valid_status_truthy
             split: if_splits)
next
  case pre: True
  then have t: "truthy (body_status req)" by (simp add: valid_status_truthy)
  show ?thesis
  proof (cases "findByPk st (param_id req)")
    case None
    with run pre t show ?thesis
      by (simp add: updateWithdrawalStatus_def handleValidationErrors_def) auto
  next
    case (Some w)
    show ?thesis
    proof (cases "status w = ''pending'' \<or> status w = ''confirmed''")
      case False
      with run pre t Some show ?thesis
        by (simp add: updateWithdrawalStatus_def handleValidationErrors_def status_error_def)
           auto
    next
      case src: True
      show ?thesis
      proof (cases "req_user req")
        case None
        with run pre t Some src show ?thesis
          by (auto simp: updateWithdrawalStatus_def handleValidationErrors_def caught_def
                         sendErrorResponse_def)
      next
        case (Some adm)
        with run pre t \<open>findByPk st (param_id req) = Some w\<close> src
        have "write_and_commit e req st w (build_updateData e req adm) = (resp, st', tr)"
          by (auto simp: updateWithdrawalStatus_def handleValidationErrors_def)
        from write_and_commit_cases [OF this] pre \<open>findByPk st (param_id req) = Some w\<close> src Some
        show ?thesis by auto
      qed
    qed
  qed
qed

lemma update_ok:
  assumes "validation_errors req = []" "array_includes validStatuses (body_status req)"
    and "findByPk st (param_id req) = Some w"
    and "status w = ''pending'' \<or> status w = ''confirmed''"
    and "req_user req = Some adm"
    and "\<not> fails e CallFindByPk" "\<not> fails e CallUserUpdate"
        "\<not> fails e CallWithdrawalUpdate" "\<not> fails e CallCommit"
  shows "code (fst (updateWithdrawalStatus e req st)) = 200"
  using assms
  by (auto simp: updateWithdrawalStatus_def handleValidationErrors_def valid_status_truthy
                 write_and_commit_ok)

lemma findByPk_committed:
  assumes "findByPk st i = Some w"
  shows "findByPk (committed_store e req st w d) i = Some (apply_update d w)"
  using assms findByPk_wid [OF assms]
  by (simp add: committed_store_def findByPk_update findByPk_refund)

lemma findUser_committed_other:
  "j \<noteq> userId w \<Longrightarrow> findUser (committed_store e req st w d) j = findUser st j"
  by (simp add: committed_store_def findUser_update findUser_refund_other)

lemma findUser_committed_refund:
  assumes "str_of (body_status req) = ''failed'' \<or> str_of (body_status req) = ''rejected''"
  shows "findUser (committed_store e req st w d) (userId w)
           = map_option (\<lambda>u. u\<lparr>walletBalance := walletBalance u + amount w\<rparr>)
               (findUser st (userId w))"
  using assms by (simp add: committed_store_def findUser_update findUser_refund)

lemmas ex_defs = ex_req_def ex_store_def ex_w1_def ex_w2_def ex_user_def ex_env_def
  findByPk_def findUser_def validStatuses_def

lemmas ex_list_defs = ex_list_req_def ex_req_def ex_store3_def ex_w1_def ex_w2_def ex_w3_def ex_w4_def
  ex_user_def ex_env_def empty_store_def

section \<open>Facts about the listing and the statistics\<close>

lemma row_of_to_row:
  "row_createdAt (to_row st w) = createdAt w" "row_status (to_row st w) = status w"
  "row_userId (to_row st w) = userId w" "row_id (to_row st w) = wid w"
  by (simp_all add: to_row_def)

lemma mset_findAll:
  "mset (findAll req st) = mset (map (to_row st) (filter (whereClause req) (withdrawals st)))"
  by (simp add: findAll_def)

lemma findAll_descending:
  "sorted_wrt (\<lambda>a b. row_createdAt a \<ge> row_createdAt b) (findAll req st)"
proof -
  have "sorted (map (\<lambda>w. - createdAt w)
                  (sort_key (\<lambda>w. - createdAt w) (filter (whereClause req) (withdrawals st))))"
    by (rule sorted_sort_key)
  then show ?thesis
    by (simp add: findAll_def sorted_wrt_map row_of_to_row)
qed

lemma findAll_empty_iff:
  "findAll req st = [] \<longleftrightarrow> filter (whereClause req) (withdrawals st) = []"
proof -
  have "length (findAll req st) = length (filter (whereClause req) (withdrawals st))"
    by (simp add: findAll_def)
  then show ?thesis by (metis length_0_conv)
qed

lemma getAllWithdrawals_ok:
  assumes "validation_errors req = []" "\<not> fails e CallFindAll"
  shows "getAllWithdrawals e req st
           = \<lparr>code = 200, success = True,
              message = (if findAll req st \<noteq> [] then ''Withdrawals retrieved successfully''
                         else ''No withdrawals found''),
              data = ListData (findAll req st) (length (findAll req st))\<rparr>"
  using assms by (simp add: getAllWithdrawals_def handleValidationErrors_def Let_def)

lemma sum_list_absent:
  "k \<notin> set ks \<Longrightarrow> (\<Sum>x\<leftarrow>ks. if k = x then (v::'a::comm_monoid_add) else 0) = 0"
  by (induction ks) auto

lemma sum_list_indicator:
  assumes "distinct ks" "k \<in> set ks"
  shows "(\<Sum>x\<leftarrow>ks. if k = x then (v::'a::comm_monoid_add) else 0) = v"
  using assms by (induction ks) (auto simp: sum_list_absent)

lemma sum_list_groups:
  fixes g :: "'a \<Rightarrow> 'b::comm_monoid_add"
  assumes "distinct ks" "f ` set ws \<subseteq> set ks"
  shows "(\<Sum>k\<leftarrow>ks. sum_list (map g (filter (\<lambda>w. f w = k) ws))) = sum_list (map g ws)"
  using assms(2)
proof (induction ws)
  case Nil
  then show ?case by simp
next
  case (Cons w ws)
  then have k: "f w \<in> set ks" and sub: "f ` set ws \<subseteq> set ks" by auto
  have "(\<Sum>k\<leftarrow>ks. sum_list (map g (filter (\<lambda>x. f x = k) (w # ws))))
      = (\<Sum>k\<leftarrow>ks. (if f w = k then g w else 0) + sum_list (map g (filter (\<lambda>x. f x = k) ws)))"
    by (intro arg_cong [where f = sum_list] map_cong) auto
  also have "\<dots> = (\<Sum>k\<leftarrow>ks. if f w = k then g w else 0)
                 + (\<Sum>k\<leftarrow>ks. sum_list (map g (filter (\<lambda>x. f x = k) ws)))"
    by (simp add: sum_list_addf)
  also have "\<dots> = g w + sum_list (map g ws)"
    using sum_list_indicator [OF assms(1) k, of "g w"] Cons.IH [OF sub] by simp
  finally show ?case by simp
qed

lemma group_counts: "sum_list (map stat_count (group_by_status ws)) = length ws"
proof -
  have "sum_list (map stat_count (group_by_status ws))
      = (\<Sum>k\<leftarrow>remdups (map status ws). sum_list (map (\<lambda>w. 1::nat) (filter (\<lambda>w. status w = k) ws)))"
    by (simp add: group_by_status_def comp_def sum_list_triv)
  also have "\<dots> = sum_list (map (\<lambda>w. 1::nat) ws)"
    by (rule sum_list_groups) auto
  finally show ?thesis by (simp add: sum_list_triv)
qed

lemma group_amounts:
  "sum_list (map stat_totalAmount (group_by_status ws)) = sum_list (map amount ws)"
proof -
  have "sum_list (map stat_totalAmount (group_by_status ws))
      = (\<Sum>k\<leftarrow>remdups (map status ws). sum_list (map amount (filter (\<lambda>w. status w = k) ws)))"
    by (simp add: group_by_status_def comp_def)
  also have "\<dots> = sum_list (map amount ws)"
    by (rule sum_list_groups) auto
  finally show ?thesis .
qed

lemma or_zero_sum_amount: "or_zero (sum_amount ws) = sum_list (map amount ws)"
  by (simp add: sum_amount_def)

section \<open>Invalid requests\<close>

text \<open>
  C4. A request whose \<open>status\<close> is missing, or is anything but one of the four strings
  confirmed, completed, failed, rejected, is answered with status 400; the transaction is
  rolled back right after it was begun, no row is read or written, and the store is as
  before.
\<close>

theorem invalid_status_rejected:
  assumes "\<not> array_includes validStatuses (body_status req)"
  shows "updateWithdrawalStatus e req st = (resp, st', tr) \<Longrightarrow>
           code resp = 400 \<and> success resp = False \<and> st' = st \<and> tr = [Begin, Rollback]"
  using assms
  by (auto simp: updateWithdrawalStatus_def handleValidationErrors_def status_error_def
           split: option.splits if_splits)

theorem invalid_status_rejected_witness:
  "\<not> array_includes validStatuses (body_status (ex_req ''1'' JUndefined))
   \<and> code (fst (updateWithdrawalStatus ex_env (ex_req ''1'' JUndefined) ex_store)) = 400
   \<and> fst (snd (updateWithdrawalStatus ex_env (ex_req ''1'' JUndefined) ex_store)) = ex_store
   \<and> snd (snd (updateWithdrawalStatus ex_env (ex_req ''1'' JUndefined) ex_store))
       = [Begin, Rollback]"
proof -
  let ?r = "updateWithdrawalStatus ex_env (ex_req ''1'' JUndefined) ex_store"
  have h: "\<not> array_includes validStatuses (body_status (ex_req ''1'' JUndefined))"
    by (simp add: ex_req_def)
  have "?r = (fst ?r, fst (snd ?r), snd (snd ?r))" by simp
  from invalid_status_rejected [OF h this] h show ?thesis by simp
qed

section \<open>Terminal states\<close>

text \<open>
  C1. A withdrawal that is completed, failed or rejected cannot be moved: whatever status
  is requested, the store (the row and every wallet balance) is unchanged and the
  transaction is rolled back with no write made. When the store answers the read, the
  response has status 400; for a request that passed validation with one of the four target
  statuses it is the invalid-transition answer naming the current status.
\<close>

theorem terminal_immutable:
  assumes loaded: "findByPk st (param_id req) = Some w"
    and terminal: "status w = ''completed'' \<or> status w = ''failed'' \<or> status w = ''rejected''"
    and run: "updateWithdrawalStatus e req st = (resp, st', tr)"
  shows "st' = st
       \<and> (tr = [Begin, Rollback] \<or> tr = [Begin, FindByPk (param_id req), Rollback])
       \<and> (\<not> fails e CallFindByPk \<longrightarrow> code resp = 400 \<and> success resp = False)
       \<and> (\<not> fails e CallFindByPk \<and> validation_errors req = []
            \<and> array_includes validStatuses (body_status req) \<longrightarrow>
          message resp = ''Withdrawal cannot be updated from '' @ status w @ '' status''
          \<and> tr = [Begin, FindByPk (param_id req), Rollback])"
  using assms
  by (auto simp: updateWithdrawalStatus_def handleValidationErrors_def status_error_def
                 caught_def sendErrorResponse_def
           dest: valid_status_truthy
           split: option.splits if_splits)

theorem terminal_immutable_witness:
  "findByPk ex_store (param_id (ex_req ''2'' (JStr ''rejected''))) = Some ex_w2
   \<and> status ex_w2 = ''completed''
   \<and> fst (snd (updateWithdrawalStatus ex_env (ex_req ''2'' (JStr ''rejected'')) ex_store))
       = ex_store
   \<and> code (fst (updateWithdrawalStatus ex_env (ex_req ''2'' (JStr ''rejected'')) ex_store))
       = 400
   \<and> message (fst (updateWithdrawalStatus ex_env (ex_req ''2'' (JStr ''rejected'')) ex_store))
       = ''Withdrawal cannot be updated from completed status''
   \<and> snd (snd (updateWithdrawalStatus ex_env (ex_req ''2'' (JStr ''rejected'')) ex_store))
       = [Begin, FindByPk ''2'', Rollback]"
proof -
  let ?req = "ex_req ''2'' (JStr ''rejected'')"
  let ?r = "updateWithdrawalStatus ex_env ?req ex_store"
  have l: "findByPk ex_store (param_id ?req) = Some ex_w2" by (simp add: ex_defs)
  have t: "status ex_w2 = ''completed'' \<or> status ex_w2 = ''failed''
           \<or> status ex_w2 = ''rejected''" by (simp add: ex_w2_def)
  have r: "?r = (fst ?r, fst (snd ?r), snd (snd ?r))" by simp
  have c: "\<not> fails ex_env CallFindByPk" "validation_errors ?req = []"
    "array_includes validStatuses (body_status ?req)" "param_id ?req = ''2''"
    "status ex_w2 = ''completed''"
    by (simp_all add: ex_defs)
  from terminal_immutable [OF l t r] c l show ?thesis by simp
qed

section \<open>The acting admin\<close>

text \<open>
  C10. With no acting admin on the request (\<^verbatim>\<open>req.user\<close> absent) nothing is ever committed:
  the store is unchanged, no update and no commit is among the calls made, and the
  transaction ends rolled back. A request on a pending or confirmed withdrawal that reaches
  the building of the update throws there and is answered by the 500 response of the
  \<^verbatim>\<open>catch\<close>.
\<close>

theorem absent_admin_rolls_back:
  assumes absent: "req_user req = None"
    and run: "updateWithdrawalStatus e req st = (resp, st', tr)"
  shows "st' = st \<and> code resp \<noteq> 200
       \<and> set tr \<subseteq> {Begin, FindByPk (param_id req), Rollback} \<and> last tr = Rollback
       \<and> (validation_errors req = [] \<and> array_includes validStatuses (body_status req)
            \<and> \<not> fails e CallFindByPk \<and> findByPk st (param_id req) = Some w
            \<and> (status w = ''pending'' \<or> status w = ''confirmed'') \<longrightarrow>
          resp = sendErrorResponse 500 ''Failed to update withdrawal status''
          \<and> tr = [Begin, FindByPk (param_id req), Rollback])"
proof -
  have a: "st' = st \<and> code resp \<noteq> 200
       \<and> set tr \<subseteq> {Begin, FindByPk (param_id req), Rollback} \<and> last tr = Rollback"
    using run absent
    by (auto simp: updateWithdrawalStatus_def handleValidationErrors_def status_error_def
                   caught_def sendErrorResponse_def
             split: option.splits if_splits)
  have b: "validation_errors req = [] \<and> array_includes validStatuses (body_status req)
            \<and> \<not> fails e CallFindByPk \<and> findByPk st (param_id req) = Some w
            \<and> (status w = ''pending'' \<or> status w = ''confirmed'') \<longrightarrow>
          resp = sendErrorResponse 500 ''Failed to update withdrawal status''
          \<and> tr = [Begin, FindByPk (param_id req), Rollback]"
    using run absent
    by (auto simp: updateWithdrawalStatus_def handleValidationErrors_def caught_def
                   valid_status_truthy)
  from a b show ?thesis by simp
qed

theorem absent_admin_rolls_back_witness:
  "req_user ex_req_no_admin = None
   \<and> fst (updateWithdrawalStatus ex_env ex_req_no_admin ex_store)
       = sendErrorResponse 500 ''Failed to update withdrawal status''
   \<and> fst (snd (updateWithdrawalStatus ex_env ex_req_no_admin ex_store)) = ex_store
   \<and> snd (snd (updateWithdrawalStatus ex_env ex_req_no_admin ex_store))
       = [Begin, FindByPk ''1'', Rollback]"
proof -
  let ?req = "ex_req_no_admin"
  let ?r = "updateWithdrawalStatus ex_env ?req ex_store"
  have a: "req_user ?req = None" by (simp add: ex_req_no_admin_def)
  have r: "?r = (fst ?r, fst (snd ?r), snd (snd ?r))" by simp
  have c: "validation_errors ?req = []" "array_includes validStatuses (body_status ?req)"
    "\<not> fails ex_env CallFindByPk" "findByPk ex_store (param_id ?req) = Some ex_w1"
    "status ex_w1 = ''pending''" "param_id ?req = ''1''"
    by (simp_all add: ex_req_no_admin_def ex_defs)
  from absent_admin_rolls_back [OF a r, of ex_w1] c a show ?thesis by simp
qed

section \<open>Timestamps of a transition\<close>

text \<open>
  C3. After a successful transition (status 200) the row carries the requested status,
  \<open>processed_at\<close> and \<open>processed_by\<close> (the acting admin). For completed, \<open>completed_at\<close>
  is written with the time of the update, so it is not null; for confirmed it is not among
  the written fields and the row keeps the value it had, null when it was null.
\<close>

theorem completed_at_on_transition:
  assumes run: "updateWithdrawalStatus e req st = (resp, st', tr)"
    and ok: "code resp = 200"
  shows "\<exists>w w' adm d.
           findByPk st (param_id req) = Some w
         \<and> findByPk st' (param_id req) = Some w'
         \<and> req_user req = Some adm
         \<and> WithdrawalUpdate (param_id req) d \<in> set tr
         \<and> status w' = str_of (body_status req)
         \<and> processed_at w' = Some (date_processed e)
         \<and> processed_by w' = Some (admin_id adm)
         \<and> (body_status req = JStr ''completed'' \<longrightarrow>
                upd_completed_at d = Some (date_completed e)
              \<and> completed_at w' = Some (date_completed e))
         \<and> (body_status req = JStr ''confirmed'' \<longrightarrow>
                upd_completed_at d = None
              \<and> completed_at w' = completed_at w
              \<and> (completed_at w = None \<longrightarrow> completed_at w' = None))"
proof -
  from update_cases [OF run] ok obtain w adm where
    tr: "tr = committed_trace req w (build_updateData e req adm)"
    and loaded: "findByPk st (param_id req) = Some w"
    and adm: "req_user req = Some adm"
    and st': "st' = committed_store e req st w (build_updateData e req adm)"
    by auto
  let ?d = "build_updateData e req adm"
  have w': "findByPk st' (param_id req) = Some (apply_update ?d w)"
    unfolding st' by (rule findByPk_committed [OF loaded])
  have op: "WithdrawalUpdate (param_id req) ?d \<in> set tr"
    using findByPk_wid [OF loaded] by (simp add: tr committed_trace_def)
  have 1: "status (apply_update ?d w) = str_of (body_status req)"
    by (simp add: status_apply_update build_updateData_fields)
  have 2: "processed_at (apply_update ?d w) = Some (date_processed e)"
          "processed_by (apply_update ?d w) = Some (admin_id adm)"
    by (simp_all add: processed_apply_update build_updateData_fields)
  have 3: "body_status req = JStr ''completed'' \<longrightarrow>
             upd_completed_at ?d = Some (date_completed e)
           \<and> completed_at (apply_update ?d w) = Some (date_completed e)"
    by (simp add: completed_apply_update build_updateData_fields)
  have 4: "body_status req = JStr ''confirmed'' \<longrightarrow>
             upd_completed_at ?d = None
           \<and> completed_at (apply_update ?d w) = completed_at w
           \<and> (completed_at w = None \<longrightarrow> completed_at (apply_update ?d w) = None)"
    by (simp add: completed_apply_update build_updateData_fields)
  show ?thesis
  proof (intro exI conjI)
    show "findByPk st (param_id req) = Some w" by (rule loaded)
    show "findByPk st' (param_id req) = Some (apply_update ?d w)" by (rule w')
    show "req_user req = Some adm" by (rule adm)
    show "WithdrawalUpdate (param_id req) ?d \<in> set tr" by (rule op)
    show "status (apply_update ?d w) = str_of (body_status req)" by (rule 1)
    show "processed_at (apply_update ?d w) = Some (date_processed e)" by (rule 2)
    show "processed_by (apply_update ?d w) = Some (admin_id adm)" by (rule 2)
    show "body_status req = JStr ''completed'' \<longrightarrow>
             upd_completed_at ?d = Some (date_completed e)
           \<and> completed_at (apply_update ?d w) = Some (date_completed e)" by (rule 3)
    show "body_status req = JStr ''confirmed'' \<longrightarrow>
             upd_completed_at ?d = None
           \<and> completed_at (apply_update ?d w) = completed_at w
           \<and> (completed_at w = None \<longrightarrow> completed_at (apply_update ?d w) = None)"
      by (rule 4)
  qed
qed

theorem completed_at_on_transition_witness:
  "code (fst (updateWithdrawalStatus ex_env (ex_req ''1'' (JStr ''completed'')) ex_store)) = 200
   \<and> map_option completed_at
        (findByPk (fst (snd (updateWithdrawalStatus ex_env (ex_req ''1'' (JStr ''completed''))
                               ex_store))) ''1'') = Some (Some 5001)
   \<and> code (fst (updateWithdrawalStatus ex_env (ex_req ''1'' (JStr ''confirmed'')) ex_store)) = 200
   \<and> map_option completed_at
        (findByPk (fst (snd (updateWithdrawalStatus ex_env (ex_req ''1'' (JStr ''confirmed''))
                               ex_store))) ''1'') = Some None
   \<and> map_option processed_at
        (findByPk (fst (snd (updateWithdrawalStatus ex_env (ex_req ''1'' (JStr ''confirmed''))
                               ex_store))) ''1'') = Some (Some 5000)
   \<and> map_option processed_by
        (findByPk (fst (snd (updateWithdrawalStatus ex_env (ex_req ''1'' (JStr ''confirmed''))
                               ex_store))) ''1'') = Some (Some ''9'')"
proof -
  let ?q1 = "ex_req ''1'' (JStr ''completed'')"
  let ?q2 = "ex_req ''1'' (JStr ''confirmed'')"
  let ?r1 = "updateWithdrawalStatus ex_env ?q1 ex_store"
  let ?r2 = "updateWithdrawalStatus ex_env ?q2 ex_store"
  have l: "findByPk ex_store ''1'' = Some ex_w1" by (simp add: ex_defs)
  have c: "param_id ?q1 = ''1''" "param_id ?q2 = ''1''"
    "body_status ?q1 = JStr ''completed''" "body_status ?q2 = JStr ''confirmed''"
    "req_user ?q1 = Some \<lparr>admin_id = ''9''\<rparr>" "req_user ?q2 = Some \<lparr>admin_id = ''9''\<rparr>"
    "date_completed ex_env = 5001" "date_processed ex_env = 5000"
    "completed_at ex_w1 = None"
    by (simp_all add: ex_defs)
  have ok1: "code (fst ?r1) = 200"
    by (rule update_ok [where w = ex_w1]) (simp_all add: ex_defs)
  have ok2: "code (fst ?r2) = 200"
    by (rule update_ok [where w = ex_w1]) (simp_all add: ex_defs)
  have r1: "?r1 = (fst ?r1, fst (snd ?r1), snd (snd ?r1))" by simp
  have r2: "?r2 = (fst ?r2, fst (snd ?r2), snd (snd ?r2))" by simp
  from completed_at_on_transition [OF r1 ok1] l c
  have 1: "map_option completed_at (findByPk (fst (snd ?r1)) ''1'') = Some (Some 5001)"
    by auto
  from completed_at_on_transition [OF r2 ok2] l c
  have 2: "map_option completed_at (findByPk (fst (snd ?r2)) ''1'') = Some None
         \<and> map_option processed_at (findByPk (fst (snd ?r2)) ''1'') = Some (Some 5000)
         \<and> map_option processed_by (findByPk (fst (snd ?r2)) ''1'') = Some (Some ''9'')"
    by auto
  from ok1 ok2 1 2 show ?thesis by simp
qed

section \<open>The refund\<close>

text \<open>
  C2. A transition of a pending or confirmed withdrawal to failed or rejected either
  commits both the new status and the owning user's balance increased by exactly the
  amount, or commits nothing (the store is as before and the transaction ends rolled back).
  In the first case the refund and the update of the row are made in this order in one
  transaction, followed by its single commit. No other user's row changes. With an acting
  admin and no failing store call it commits.
\<close>

theorem refund_atomic_with_status:
  assumes valid: "validation_errors req = []"
    and target: "body_status req = JStr s" "s = ''failed'' \<or> s = ''rejected''"
    and loaded: "findByPk st (param_id req) = Some w"
    and src: "status w = ''pending'' \<or> status w = ''confirmed''"
    and owner: "findUser st (userId w) = Some u"
    and run: "updateWithdrawalStatus e req st = (resp, st', tr)"
  shows "((code resp = 200
           \<and> map_option status (findByPk st' (param_id req)) = Some s
           \<and> map_option walletBalance (findUser st' (userId w))
               = Some (walletBalance u + amount w)
           \<and> (\<exists>d. upd_status d = s
                \<and> tr = [Begin, FindByPk (param_id req), UserUpdate (userId w) (amount w),
                        WithdrawalUpdate (param_id req) d, Commit]))
          \<or> (code resp \<noteq> 200 \<and> st' = st \<and> last tr = Rollback))
       \<and> (\<forall>j. j \<noteq> userId w \<longrightarrow> findUser st' j = findUser st j)
       \<and> ((\<forall>c. \<not> fails e c) \<and> req_user req \<noteq> None \<longrightarrow> code resp = 200)"
proof -
  have inc: "array_includes validStatuses (body_status req)"
    using target by (auto simp: validStatuses_def)
  have s: "str_of (body_status req) = s" using target by simp
  from update_cases [OF run]
  have a: "(code resp = 200
           \<and> map_option status (findByPk st' (param_id req)) = Some s
           \<and> map_option walletBalance (findUser st' (userId w))
               = Some (walletBalance u + amount w)
           \<and> (\<exists>d. upd_status d = s
                \<and> tr = [Begin, FindByPk (param_id req), UserUpdate (userId w) (amount w),
                        WithdrawalUpdate (param_id req) d, Commit])
           \<or> code resp \<noteq> 200 \<and> st' = st \<and> last tr = Rollback)
       \<and> (\<forall>j. j \<noteq> userId w \<longrightarrow> findUser st' j = findUser st j)"
  proof
    assume "code resp \<noteq> 200 \<and> st' = st \<and> last tr = Rollback"
    then show ?thesis by simp
  next
    assume "\<exists>w adm. code resp = 200
              \<and> tr = committed_trace req w (build_updateData e req adm)
              \<and> validation_errors req = []
              \<and> array_includes validStatuses (body_status req)
              \<and> findByPk st (param_id req) = Some w
              \<and> (status w = ''pending'' \<or> status w = ''confirmed'')
              \<and> req_user req = Some adm
              \<and> st' = committed_store e req st w (build_updateData e req adm)"
    then obtain adm where c: "code resp = 200"
      and tr: "tr = committed_trace req w (build_updateData e req adm)"
      and st': "st' = committed_store e req st w (build_updateData e req adm)"
      using loaded by auto
    have "findByPk st' (param_id req) = Some (apply_update (build_updateData e req adm) w)"
      unfolding st' by (rule findByPk_committed [OF loaded])
    then have 1: "map_option status (findByPk st' (param_id req)) = Some s"
      by (simp add: status_apply_update build_updateData_def s)
    have 2: "map_option walletBalance (findUser st' (userId w))
               = Some (walletBalance u + amount w)"
      unfolding st' using target(2) owner by (simp add: findUser_committed_refund s)
    have 3: "\<forall>j. j \<noteq> userId w \<longrightarrow> findUser st' j = findUser st j"
      unfolding st' by (simp add: findUser_committed_other)
    have "upd_status (build_updateData e req adm) = s
        \<and> tr = [Begin, FindByPk (param_id req), UserUpdate (userId w) (amount w),
                WithdrawalUpdate (param_id req) (build_updateData e req adm), Commit]"
      using target(2) findByPk_wid [OF loaded]
      by (simp add: tr committed_trace_def build_updateData_fields s)
    then have 4: "\<exists>d. upd_status d = s
        \<and> tr = [Begin, FindByPk (param_id req), UserUpdate (userId w) (amount w),
                WithdrawalUpdate (param_id req) d, Commit]"
      by blast
    from c 1 2 3 4 show ?thesis by simp
  qed
  have b: "(\<forall>c. \<not> fails e c) \<and> req_user req \<noteq> None \<longrightarrow> code resp = 200"
  proof
    assume h: "(\<forall>c. \<not> fails e c) \<and> req_user req \<noteq> None"
    then obtain adm where "req_user req = Some adm" by auto
    from update_ok [OF valid inc loaded src this, of e] h run show "code resp = 200"
      by simp
  qed
  from a b show ?thesis by simp
qed

theorem refund_atomic_with_status_witness:
  "validation_errors (ex_req ''1'' (JStr ''failed'')) = []
   \<and> findByPk ex_store (param_id (ex_req ''1'' (JStr ''failed''))) = Some ex_w1
   \<and> status ex_w1 = ''pending''
   \<and> findUser ex_store (userId ex_w1) = Some ex_user
   \<and> walletBalance ex_user = 100 \<and> amount ex_w1 = 50
   \<and> code (fst (updateWithdrawalStatus ex_env (ex_req ''1'' (JStr ''failed'')) ex_store)) = 200
   \<and> map_option status
        (findByPk (fst (snd (updateWithdrawalStatus ex_env (ex_req ''1'' (JStr ''failed''))
                               ex_store))) ''1'') = Some ''failed''
   \<and> map_option walletBalance
        (findUser (fst (snd (updateWithdrawalStatus ex_env (ex_req ''1'' (JStr ''failed''))
                               ex_store))) ''7'') = Some 150
   \<and> findUser (fst (snd (updateWithdrawalStatus ex_env (ex_req ''1'' (JStr ''failed''))
                             ex_store))) ''8'' = findUser ex_store ''8''"
proof -
  let ?req = "ex_req ''1'' (JStr ''failed'')"
  let ?r = "updateWithdrawalStatus ex_env ?req ex_store"
  have v: "validation_errors ?req = []" by (simp add: ex_req_def)
  have b: "body_status ?req = JStr ''failed''" by (simp add: ex_req_def)
  have l: "findByPk ex_store (param_id ?req) = Some ex_w1" by (simp add: ex_defs)
  have p: "status ex_w1 = ''pending'' \<or> status ex_w1 = ''confirmed''"
    by (simp add: ex_w1_def)
  have u: "findUser ex_store (userId ex_w1) = Some ex_user" by (simp add: ex_defs)
  have r: "?r = (fst ?r, fst (snd ?r), snd (snd ?r))" by simp
  have c: "\<forall>c. \<not> fails ex_env c" "req_user ?req \<noteq> None" "param_id ?req = ''1''"
    "userId ex_w1 = ''7''" "walletBalance ex_user = 100" "amount ex_w1 = 50"
    "status ex_w1 = ''pending''"
    by (simp_all add: ex_defs)
  have s: "''failed'' = ''failed'' \<or> ''failed'' = ''rejected''" by simp
  note t = refund_atomic_with_status [OF v b s l p u r]
  from t c(1,2) have k: "code (fst ?r) = 200" by blast
  with t have "map_option status (findByPk (fst (snd ?r)) (param_id ?req)) = Some ''failed''
     \<and> map_option walletBalance (findUser (fst (snd ?r)) (userId ex_w1))
         = Some (walletBalance ex_user + amount ex_w1)"
    by blast
  then have "map_option status (findByPk (fst (snd ?r)) ''1'') = Some ''failed''
     \<and> map_option walletBalance (findUser (fst (snd ?r)) ''7'') = Some 150"
    by (simp only: c) simp
  moreover from t c(4) have "findUser (fst (snd ?r)) ''8'' = findUser ex_store ''8''"
    by simp
  ultimately show ?thesis using k v l u c(5,6,7) by blast
qed

section \<open>The listing\<close>

text \<open>
  C6. A listing with a status filter answers with exactly the rows of that status (and of
  the given user when \<open>userId\<close> is given), each once, in an order that never increases in
  creation time.
\<close>

theorem listing_filtered_descending:
  assumes "validation_errors req = []" "\<not> fails e CallFindAll"
    and "query_status req = Some s" "s \<noteq> []"
  shows "\<exists>rows. code (getAllWithdrawals e req st) = 200
         \<and> data (getAllWithdrawals e req st) = ListData rows (length rows)
         \<and> mset rows
             = mset (map (to_row st)
                 (filter (\<lambda>w. status w = s
                             \<and> (given (query_userId req) \<longrightarrow>
                                  Some (userId w) = query_userId req))
                    (withdrawals st)))
         \<and> sorted_wrt (\<lambda>a b. row_createdAt a \<ge> row_createdAt b) rows
         \<and> (\<forall>r \<in> set rows. row_status r = s)"
proof -
  have w: "whereClause req = (\<lambda>w. status w = s
              \<and> (given (query_userId req) \<longrightarrow> Some (userId w) = query_userId req))"
    using assms(3,4) by (auto simp: whereClause_def fun_eq_iff)
  have m: "mset (findAll req st)
             = mset (map (to_row st)
                 (filter (\<lambda>w. status w = s
                             \<and> (given (query_userId req) \<longrightarrow>
                                  Some (userId w) = query_userId req))
                    (withdrawals st)))"
    using mset_findAll [of req st] by (simp only: w)
  have "set (findAll req st) = set_mset (mset (findAll req st))" by simp
  also have "\<dots> = to_row st ` {x \<in> set (withdrawals st). whereClause req x}"
    unfolding mset_findAll by simp
  finally have "\<forall>r \<in> set (findAll req st). row_status r = s"
    by (auto simp: w row_of_to_row)
  with m findAll_descending [of req st] getAllWithdrawals_ok [OF assms(1,2), of st]
  show ?thesis by (intro exI [of _ "findAll req st"]) simp
qed

theorem listing_filtered_descending_witness:
  "validation_errors (ex_list_req (Some ''pending'') (Some ''7'')) = []
   \<and> \<not> fails ex_env CallFindAll
   \<and> query_status (ex_list_req (Some ''pending'') (Some ''7'')) = Some ''pending''
   \<and> given (query_userId (ex_list_req (Some ''pending'') (Some ''7'')))
   \<and> (\<exists>rows. data (getAllWithdrawals ex_env (ex_list_req (Some ''pending'') (Some ''7'')) ex_store3)
               = ListData rows (length rows)
         \<and> mset (map row_id rows) = {#''1'', ''3''#}
         \<and> sorted_wrt (\<lambda>a b. row_createdAt a \<ge> row_createdAt b) rows
         \<and> (\<forall>r \<in> set rows. row_status r = ''pending''))
   \<and> map row_id (findAll (ex_list_req (Some ''pending'') (Some ''7'')) ex_store3) = [''3'', ''1'']"
proof -
  let ?req = "ex_list_req (Some ''pending'') (Some ''7'')"
  have h: "validation_errors ?req = []" "\<not> fails ex_env CallFindAll"
    "query_status ?req = Some ''pending''" "''pending'' \<noteq> []"
    by (simp_all add: ex_list_defs)
  have f: "filter (\<lambda>w. status w = ''pending''
                     \<and> (given (query_userId ?req) \<longrightarrow> Some (userId w) = query_userId ?req))
             (withdrawals ex_store3) = [ex_w1, ex_w3]"
    by (simp add: ex_list_defs)
  from listing_filtered_descending [OF h, of ex_store3]
  obtain rows where r: "data (getAllWithdrawals ex_env ?req ex_store3) = ListData rows (length rows)"
    and m: "mset rows = mset (map (to_row ex_store3) [ex_w1, ex_w3])"
    and s: "sorted_wrt (\<lambda>a b. row_createdAt a \<ge> row_createdAt b) rows"
    and p: "\<forall>r \<in> set rows. row_status r = ''pending''"
    unfolding f by blast
  have "mset (map row_id rows) = image_mset row_id (mset rows)" by simp
  also have "\<dots> = {#''1'', ''3''#}"
    unfolding m by (simp add: row_of_to_row ex_w1_def ex_w3_def)
  finally have 1: "\<exists>rows. data (getAllWithdrawals ex_env ?req ex_store3)
                        = ListData rows (length rows)
         \<and> mset (map row_id rows) = {#''1'', ''3''#}
         \<and> sorted_wrt (\<lambda>a b. row_createdAt a \<ge> row_createdAt b) rows
         \<and> (\<forall>r \<in> set rows. row_status r = ''pending'')"
    using r s p by blast
  have 2: "map row_id (findAll ?req ex_store3) = [''3'', ''1'']"
    by (simp add: findAll_def whereClause_def to_row_def ex_list_defs)
  have g: "given (query_userId ?req)" by (simp add: ex_list_defs)
  from h(1,2,3) g 1 2 show ?thesis by blast
qed

text \<open>
  C7. A listing that matches no row is answered like one that matches some: status 200,
  \<open>success\<close> true and the rows with their number, here the empty list and 0. Only the
  message differs.
\<close>

theorem empty_listing_is_success:
  assumes "validation_errors req = []" "\<not> fails e CallFindAll"
  shows "(filter (whereClause req) (withdrawals st) = [] \<longrightarrow>
            getAllWithdrawals e req st
              = \<lparr>code = 200, success = True, message = ''No withdrawals found'',
                 data = ListData [] 0\<rparr>)
       \<and> (filter (whereClause req) (withdrawals st) \<noteq> [] \<longrightarrow>
            (\<exists>rows. rows \<noteq> []
               \<and> getAllWithdrawals e req st
                   = \<lparr>code = 200, success = True,
                      message = ''Withdrawals retrieved successfully'',
                      data = ListData rows (length rows)\<rparr>))
       \<and> ''No withdrawals found'' \<noteq> ''Withdrawals retrieved successfully''"
  using getAllWithdrawals_ok [OF assms, of st] findAll_empty_iff [of req st]
  by auto

theorem empty_listing_is_success_witness:
  "validation_errors (ex_list_req (Some ''failed'') None) = []
   \<and> \<not> fails ex_env CallFindAll
   \<and> filter (whereClause (ex_list_req (Some ''failed'') None)) (withdrawals ex_store3) = []
   \<and> getAllWithdrawals ex_env (ex_list_req (Some ''failed'') None) ex_store3
       = \<lparr>code = 200, success = True, message = ''No withdrawals found'',
          data = ListData [] 0\<rparr>
   \<and> filter (whereClause (ex_list_req (Some ''completed'') None)) (withdrawals ex_store3) \<noteq> []
   \<and> code (getAllWithdrawals ex_env (ex_list_req (Some ''completed'') None) ex_store3) = 200
   \<and> message (getAllWithdrawals ex_env (ex_list_req (Some ''completed'') None) ex_store3)
       = ''Withdrawals retrieved successfully''"
proof -
  let ?q1 = "ex_list_req (Some ''failed'') None"
  let ?q2 = "ex_list_req (Some ''completed'') None"
  have h1: "validation_errors ?q1 = []" "\<not> fails ex_env CallFindAll"
    by (simp_all add: ex_list_defs)
  have h2: "validation_errors ?q2 = []" by (simp add: ex_list_defs)
  have e1: "filter (whereClause ?q1) (withdrawals ex_store3) = []"
    by (simp add: whereClause_def ex_list_defs)
  have e2: "filter (whereClause ?q2) (withdrawals ex_store3) \<noteq> []"
    by (simp add: whereClause_def ex_list_defs)
  from empty_listing_is_success [OF h1, of ex_store3] e1
  have 1: "getAllWithdrawals ex_env ?q1 ex_store3
       = \<lparr>code = 200, success = True, message = ''No withdrawals found'',
          data = ListData [] 0\<rparr>"
    by blast
  from empty_listing_is_success [OF h2 h1(2), of ex_store3] e2
  have 2: "code (getAllWithdrawals ex_env ?q2 ex_store3) = 200
       \<and> message (getAllWithdrawals ex_env ?q2 ex_store3)
           = ''Withdrawals retrieved successfully''"
    by auto
  from h1 e1 1 e2 2 show ?thesis by blast
qed

section \<open>The statistics\<close>

text \<open>
  C5. When the statistics are answered (no validation error, no failing store call), the
  counts of the per-status groups add up to \<open>totalWithdrawals\<close>, which is the number of
  rows, and their amounts add up to \<open>totalAmount\<close>; with no rows there is no group and
  \<open>totalAmount\<close> is 0.
\<close>

theorem stats_totals_agree:
  assumes "validation_errors req = []"
    and "\<not> fails e CallGroupBy" "\<not> fails e CallCount" "\<not> fails e CallSum"
  shows "\<exists>stats totalWithdrawals totalAmount.
           getWithdrawalStats e req st
             = \<lparr>code = 200, success = True,
                message = ''Withdrawal statistics retrieved successfully'',
                data = StatsData stats totalWithdrawals totalAmount\<rparr>
         \<and> sum_list (map stat_count stats) = totalWithdrawals
         \<and> sum_list (map stat_totalAmount stats) = totalAmount
         \<and> totalWithdrawals = length (withdrawals st)
         \<and> (withdrawals st = [] \<longrightarrow> stats = [] \<and> totalAmount = 0)"
  using assms
  by (simp add: getWithdrawalStats_def handleValidationErrors_def Let_def group_counts
                group_amounts or_zero_sum_amount)
     (simp add: group_by_status_def)

theorem stats_totals_agree_witness:
  "validation_errors (ex_list_req None None) = []
   \<and> \<not> fails ex_env CallGroupBy \<and> \<not> fails ex_env CallCount \<and> \<not> fails ex_env CallSum
   \<and> (\<exists>stats totalAmount.
         data (getWithdrawalStats ex_env (ex_list_req None None) ex_store3)
           = StatsData stats 4 totalAmount
       \<and> sum_list (map stat_count stats) = 4
       \<and> sum_list (map stat_totalAmount stats) = totalAmount)
   \<and> data (getWithdrawalStats ex_env (ex_list_req None None) empty_store) = StatsData [] 0 0
   \<and> data (getWithdrawalStats ex_env (ex_list_req None None) ex_store3)
       = StatsData [\<lparr>stat_status = ''completed'', stat_count = 1, stat_totalAmount = 30\<rparr>,
                    \<lparr>stat_status = ''pending'', stat_count = 3, stat_totalAmount = 80\<rparr>]
           4 110"
proof -
  have h: "validation_errors (ex_list_req None None) = []"
    "\<not> fails ex_env CallGroupBy" "\<not> fails ex_env CallCount" "\<not> fails ex_env CallSum"
    by (simp_all add: ex_list_defs)
  have n: "length (withdrawals ex_store3) = 4" "withdrawals empty_store = []"
    by (simp_all add: ex_list_defs)
  from stats_totals_agree [OF h, of ex_store3] n(1)
  have 1: "\<exists>stats totalAmount.
         data (getWithdrawalStats ex_env (ex_list_req None None) ex_store3)
           = StatsData stats 4 totalAmount
       \<and> sum_list (map stat_count stats) = 4
       \<and> sum_list (map stat_totalAmount stats) = totalAmount"
    by auto
  from stats_totals_agree [OF h, of empty_store] n(2)
  have 2: "data (getWithdrawalStats ex_env (ex_list_req None None) empty_store) = StatsData [] 0 0"
    by auto
  have 3: "data (getWithdrawalStats ex_env (ex_list_req None None) ex_store3)
       = StatsData [\<lparr>stat_status = ''completed'', stat_count = 1, stat_totalAmount = 30\<rparr>,
                    \<lparr>stat_status = ''pending'', stat_count = 3, stat_totalAmount = 80\<rparr>]
           4 110"
    by (simp add: getWithdrawalStats_def handleValidationErrors_def group_by_status_def
                  sum_amount_def ex_list_defs)
  from h 1 2 3 show ?thesis by blast
qed

section \<open>Occurrences of a pattern\<close>

lemma take_append_delim:
  assumes "d \<notin> set p"
  shows "take (length p) (xs @ d # ys) = p \<longleftrightarrow> take (length p) xs = p"
proof (cases "length p \<le> length xs")
  case True
  then show ?thesis by simp
next
  case False
  then have m: "d \<in> set (take (length p) (xs @ d # ys))"
    by (cases "length p - length xs") auto
  have "take (length p) (xs @ d # ys) \<noteq> p"
  proof
    assume e: "take (length p) (xs @ d # ys) = p"
    from m assms show False unfolding e by simp
  qed
  moreover have "take (length p) xs \<noteq> p"
  proof
    assume "take (length p) xs = p"
    then have "length (take (length p) xs) = length p" by simp
    with False show False by simp
  qed
  ultimately show ?thesis by simp
qed

lemma count_sub_delim:
  assumes "d \<notin> set p" "p \<noteq> []"
  shows "count_sub p (xs @ d # ys) = count_sub p xs + count_sub p ys"
proof (induction xs)
  case Nil
  from take_append_delim [OF assms(1), of "[]" ys] assms(2)
  have "take (length p) (d # ys) \<noteq> p" by auto
  then show ?case by simp
next
  case (Cons x xs)
  from take_append_delim [OF assms(1), of "x # xs" ys]
  have "take (length p) (x # xs @ d # ys) = p \<longleftrightarrow> take (length p) (x # xs) = p"
    by simp
  with Cons show ?case by simp
qed

lemma count_sub_append_last:
  assumes "p \<noteq> []" "xs \<noteq> []" "last xs \<notin> set p"
  shows "count_sub p (xs @ ys) = count_sub p xs + count_sub p ys"
proof -
  have xs: "xs = butlast xs @ last xs # []" using assms(2) by simp
  have "count_sub p (xs @ ys) = count_sub p (butlast xs @ last xs # ys)"
    by (subst xs) simp
  also have "\<dots> = count_sub p (butlast xs) + count_sub p ys"
    by (rule count_sub_delim [OF assms(3,1)])
  also have "count_sub p (butlast xs) = count_sub p xs"
    using count_sub_delim [OF assms(3,1), of "butlast xs" "[]"] xs by simp
  finally show ?thesis .
qed

lemma count_sub_append_hd:
  assumes "p \<noteq> []" "ys \<noteq> []" "hd ys \<notin> set p"
  shows "count_sub p (xs @ ys) = count_sub p xs + count_sub p ys"
proof -
  have ys: "ys = hd ys # tl ys" using assms(2) by simp
  have "count_sub p (xs @ ys) = count_sub p (xs @ hd ys # tl ys)"
    by (subst ys) simp
  also have "\<dots> = count_sub p xs + count_sub p (tl ys)"
    by (rule count_sub_delim [OF assms(3,1)])
  also have "count_sub p (tl ys) = count_sub p ys"
    using count_sub_delim [OF assms(3,1), of "[]" "tl ys"] ys by simp
  finally show ?thesis .
qed

lemma count_sub_absent:
  assumes "c \<in> set p" "c \<notin> set xs"
  shows "count_sub p xs = 0"
  using assms(2)
proof (induction xs)
  case Nil
  then show ?case by simp
next
  case (Cons x xs)
  have "take (length p) (x # xs) \<noteq> p"
  proof
    assume "take (length p) (x # xs) = p"
    then have "set p \<subseteq> set (x # xs)" by (metis set_take_subset)
    with assms(1) Cons.prems show False by auto
  qed
  with Cons show ?case by simp
qed

lemma count_sub_text_lines:
  assumes "CHR 0x0A \<notin> set p" "p \<noteq> []"
  shows "count_sub p (text_lines ls @ r) = sum_list (map (count_sub p) ls) + count_sub p r"
proof (induction ls)
  case Nil
  then show ?case by simp
next
  case (Cons l ls)
  have "count_sub p (text_lines (l # ls) @ r) = count_sub p (l @ CHR 0x0A # (text_lines ls @ r))"
    by simp
  also have "\<dots> = count_sub p l + count_sub p (text_lines ls @ r)"
    by (rule count_sub_delim [OF assms])
  finally show ?case using Cons by simp
qed

lemma no_U: "CHR ''U'' \<notin> set xs \<Longrightarrow> count_sub ''12.50 USD'' xs = 0"
  by (rule count_sub_absent [of "CHR ''U''"]) simp_all

declare count_sub.simps [simp del]

section \<open>The pieces of the template\<close>

lemma piece_nonempty: "r \<noteq> [] \<Longrightarrow> text_lines ls @ r \<noteq> []"
  by simp

lemma piece_last: "r \<noteq> [] \<Longrightarrow> last (text_lines ls @ r) = last r"
  by simp

lemma piece_hd: "l \<noteq> [] \<Longrightarrow> hd (text_lines (l # ls) @ r) = hd l"
  by simp

lemma set_piece:
  "c \<in> set (text_lines ls @ r)
     \<longleftrightarrow> (ls \<noteq> [] \<and> c = CHR 0x0A) \<or> (\<exists>l \<in> set ls. c \<in> set l) \<or> c \<in> set r"
  by (induction ls) auto

lemma tpl_nonempty:
  "tpl0 \<noteq> []" "tpl1 \<noteq> []" "tpl2 \<noteq> []" "tpl3 \<noteq> []" "tpl4 \<noteq> []" "tpl5 \<noteq> []"
  "tpl6 \<noteq> []" "tpl7 \<noteq> []"
  unfolding tpl0_def tpl1_def tpl2_def tpl3_def tpl4_def tpl5_def tpl6_def tpl7_def
  by (rule piece_nonempty, simp)+

lemma tpl_last:
  "last tpl0 = CHR ''>''" "last tpl1 = CHR ''>''" "last tpl2 = CHR ''>''"
  "last tpl3 = CHR ''>''" "last tpl4 = CHR ''>''" "last tpl5 = CHR ''>''"
  "last tpl6 = CHR ''>''"
  unfolding tpl0_def tpl1_def tpl2_def tpl3_def tpl4_def tpl5_def tpl6_def
  by (subst piece_last, simp, simp)+

lemma tpl_hd:
  "hd tpl2 = CHR ''<''" "hd tpl3 = CHR ''<''" "hd tpl4 = CHR ''<''" "hd tpl5 = CHR ''<''"
  "hd tpl7 = CHR ''<''"
  unfolding tpl2_def tpl3_def tpl4_def tpl5_def tpl7_def
  by (subst piece_hd, simp, simp)+

lemma tpl_no_U:
  "CHR ''U'' \<notin> set tpl2" "CHR ''U'' \<notin> set tpl3" "CHR ''U'' \<notin> set tpl4"
  "CHR ''U'' \<notin> set tpl5" "CHR ''U'' \<notin> set tpl7" "CHR ''U'' \<notin> set tpl8"
  unfolding tpl2_def tpl3_def tpl4_def tpl5_def tpl7_def tpl8_def
  by (simp_all only: set_piece) simp_all

lemma tpl0_count: "count_sub ''12.50 USD'' tpl0 = 0"
  unfolding tpl0_def
  apply (subst count_sub_text_lines)
    apply simp
   apply simp
  apply (simp add: no_U)
  apply (simp add: count_sub.simps)
  done

lemma digit_char_digit: "d < 10 \<Longrightarrow> digit_char d \<in> set ''0123456789''"
  unfolding digit_char_def by (rule nth_mem) simp

lemma digits_are_digits: "c \<in> set (digits n) \<Longrightarrow> c \<in> set ''0123456789''"
proof (induction n arbitrary: c rule: digits.induct)
  case (1 n)
  show ?case
  proof (cases "n < 10")
    case True
    with "1.prems" digit_char_digit [of n] show ?thesis
      by (simp add: digits.simps [of n])
  next
    case False
    with "1.prems" have "c \<in> set (digits (n div 10)) \<or> c = digit_char (n mod 10)"
      by (auto simp: digits.simps [of n])
    then show ?thesis
    proof
      assume "c \<in> set (digits (n div 10))"
      with "1.IH" [OF False] show ?thesis .
    next
      assume "c = digit_char (n mod 10)"
      with digit_char_digit [of "n mod 10"] show ?thesis by simp
    qed
  qed
qed

lemma digits_nonempty: "digits n \<noteq> []"
  by (subst digits.simps) simp

lemma digits_no_U: "CHR ''U'' \<notin> set (digits n)"
proof
  assume "CHR ''U'' \<in> set (digits n)"
  from digits_are_digits [OF this] show False by simp
qed

lemma digit_value_digit_char: "d < 10 \<Longrightarrow> digit_value (digit_char d) = d"
proof -
  assume "d < 10"
  then have "d \<in> {0, 1, 2, 3, 4, 5, 6, 7, 8, 9}" by auto
  then show ?thesis
    by (auto simp: digit_value_def digit_char_def)
qed

lemma digits_value_snoc: "digits_value (xs @ [c]) = 10 * digits_value xs + digit_value c"
  by (simp add: digits_value_def)

lemma digits_value_digits: "digits_value (digits n) = n"
proof (induction n rule: digits.induct)
  case (1 n)
  show ?case
  proof (cases "n < 10")
    case True
    then show ?thesis
      by (simp add: digits.simps [of n] digits_value_def digit_value_digit_char)
  next
    case False
    then have "digits_value (digits n)
                 = 10 * digits_value (digits (n div 10)) + digit_value (digit_char (n mod 10))"
      by (simp add: digits.simps [of n] digits_value_snoc)
    also have "\<dots> = 10 * (n div 10) + n mod 10"
      using "1.IH" [OF False] by (simp add: digit_value_digit_char)
    finally show ?thesis by simp
  qed
qed

lemma digits_value_zeros: "digits_value (replicate k (CHR ''0'') @ m) = digits_value m"
proof -
  have "foldl (\<lambda>acc c. 10 * acc + digit_value c) 0 (replicate k (CHR ''0'')) = 0"
    by (induction k) (simp_all add: digit_value_def)
  then show ?thesis by (simp add: digits_value_def)
qed

lemma digits_value_0: "digits_value ''0'' = 0"
  by (simp add: digits_value_def digit_value_def)

lemma count_field:
  assumes "t \<noteq> []" "hd t = CHR ''<''" "last t = CHR ''>''" "CHR ''U'' \<notin> set t"
  shows "count_sub ''12.50 USD'' (fld @ t @ rest)
           = count_sub ''12.50 USD'' fld + count_sub ''12.50 USD'' rest"
proof -
  have "count_sub ''12.50 USD'' (fld @ t @ rest)
          = count_sub ''12.50 USD'' fld + count_sub ''12.50 USD'' (t @ rest)"
    by (rule count_sub_append_hd) (use assms in simp_all)
  also have "count_sub ''12.50 USD'' (t @ rest)
          = count_sub ''12.50 USD'' t + count_sub ''12.50 USD'' rest"
    by (rule count_sub_append_last) (use assms in simp_all)
  also have "count_sub ''12.50 USD'' t = 0" by (rule no_U [OF assms(4)])
  finally show ?thesis by simp
qed

lemma count_amount:
  assumes "t \<noteq> []" "last t = CHR ''>''"
  shows "count_sub ''12.50 USD'' (amt @ t @ rest)
           = count_sub ''12.50 USD'' (amt @ t) + count_sub ''12.50 USD'' rest"
proof -
  have "count_sub ''12.50 USD'' ((amt @ t) @ rest)
          = count_sub ''12.50 USD'' (amt @ t) + count_sub ''12.50 USD'' rest"
    by (rule count_sub_append_last) (use assms in simp_all)
  then show ?thesis by simp
qed

lemma count_footer:
  "count_sub ''12.50 USD'' (d @ tpl7 @ digits y @ tpl8) = count_sub ''12.50 USD'' d"
proof -
  have "count_sub ''12.50 USD'' (d @ tpl7 @ digits y @ tpl8)
          = count_sub ''12.50 USD'' d + count_sub ''12.50 USD'' (tpl7 @ digits y @ tpl8)"
    by (rule count_sub_append_hd) (simp_all add: tpl_nonempty tpl_hd)
  also have "count_sub ''12.50 USD'' (tpl7 @ digits y @ tpl8) = 0"
    by (rule no_U) (simp add: tpl_no_U digits_no_U)
  finally show ?thesis by simp
qed

lemma count_roi_html:
  "count_sub ''12.50 USD'' (roi_html me a amt)
     = count_sub ''12.50 USD'' (amt @ tpl1) + 2 * count_sub ''12.50 USD'' (planName a)
       + count_sub ''12.50 USD'' (transactionId a) + count_sub ''12.50 USD'' (investmentId a)
       + count_sub ''12.50 USD'' (amt @ tpl6)
       + count_sub ''12.50 USD'' (toLocaleDateString me (date a))"
proof -
  have l: "CHR ''>'' \<notin> set ''12.50 USD''" by simp
  have "count_sub ''12.50 USD'' (roi_html me a amt)
      = count_sub ''12.50 USD'' tpl0
        + count_sub ''12.50 USD''
            (amt @ tpl1 @ planName a @ tpl2 @ transactionId a @ tpl3 @ investmentId a
             @ tpl4 @ planName a @ tpl5 @ amt @ tpl6 @ toLocaleDateString me (date a)
             @ tpl7 @ digits (getFullYear me) @ tpl8)"
    unfolding roi_html_def
    by (rule count_sub_append_last) (simp_all add: tpl_nonempty tpl_last)
  then show ?thesis
    by (simp only: tpl0_count count_amount [OF tpl_nonempty(2) tpl_last(2)]
          count_amount [OF tpl_nonempty(7) tpl_last(7)]
          count_field [OF tpl_nonempty(3) tpl_hd(1) tpl_last(3) tpl_no_U(1)]
          count_field [OF tpl_nonempty(4) tpl_hd(2) tpl_last(4) tpl_no_U(2)]
          count_field [OF tpl_nonempty(5) tpl_hd(3) tpl_last(5) tpl_no_U(3)]
          count_field [OF tpl_nonempty(6) tpl_hd(4) tpl_last(6) tpl_no_U(4)]
          count_footer)
qed

lemma count_12_50:
  "count_sub ''12.50 USD'' (''12.50'' @ tpl1) = 1"
  "count_sub ''12.50 USD'' (''12.50'' @ tpl6) = 1"
  by (simp_all add: tpl1_def tpl6_def count_sub.simps)

section \<open>The amount in fixed notation\<close>

lemma digits_1250: "digits 1250 = ''1250''"
  by (simp add: digits.simps [of 1250] digits.simps [of 125] digits.simps [of 12]
                digits.simps [of "Suc 0"] digit_char_def)

lemma round_12_5: "nat \<lfloor>(25 / 2 :: rat) * 10 ^ 2 + 1 / 2\<rfloor> = 1250"
proof -
  have "\<lfloor>(25 / 2 :: rat) * 10 ^ 2 + 1 / 2\<rfloor> = 1250" by (simp add: floor_eq_iff)
  then show ?thesis by simp
qed

lemma fixed_digits_12_5: "fixed_digits (25 / 2) 2 = ''12.50''"
  unfolding fixed_digits_def Let_def round_12_5 digits_1250 by simp

lemma fixed_digits_shape:
  assumes "f \<noteq> 0"
  shows "\<exists>ip fp. fixed_digits x f = ip @ ''.'' @ fp \<and> ip \<noteq> [] \<and> length fp = f
           \<and> (\<forall>c \<in> set (ip @ fp). c \<in> set ''0123456789'')
           \<and> digits_value (ip @ fp) = nat \<lfloor>x * 10 ^ f + 1 / 2\<rfloor>"
proof -
  define n where "n = nat \<lfloor>x * 10 ^ f + 1 / 2\<rfloor>"
  define m where "m = (if n = 0 then ''0'' else digits n)"
  define m' where
    "m' = (if length m \<le> f then replicate (f + 1 - length m) (CHR ''0'') @ m else m)"
  define k' where "k' = (if length m \<le> f then f + 1 else length m)"
  have fd: "fixed_digits x f = take (k' - f) m' @ ''.'' @ drop (k' - f) m'"
    using assms by (simp add: fixed_digits_def Let_def n_def m_def m'_def k'_def)
  have md: "\<forall>c \<in> set m. c \<in> set ''0123456789''"
    using digits_are_digits [of _ n] by (auto simp: m_def)
  have mv: "digits_value m = n"
    by (simp add: m_def digits_value_0 digits_value_digits)
  have len: "length m' = k'" by (simp add: m'_def k'_def)
  have gt: "f < k'" by (simp add: k'_def)
  have m'd: "\<forall>c \<in> set m'. c \<in> set ''0123456789''"
    using md by (auto simp: m'_def)
  have m'v: "digits_value m' = n"
    using mv by (simp add: m'_def digits_value_zeros)
  have 1: "take (k' - f) m' \<noteq> []" using len gt by auto
  have 2: "length (drop (k' - f) m') = f" using len gt by simp
  have 3: "\<forall>c \<in> set (take (k' - f) m' @ drop (k' - f) m'). c \<in> set ''0123456789''"
    using m'd by simp
  have 4: "digits_value (take (k' - f) m' @ drop (k' - f) m') = nat \<lfloor>x * 10 ^ f + 1 / 2\<rfloor>"
    using m'v by (simp add: n_def)
  from fd 1 2 3 4 show ?thesis by blast
qed

lemma toFixed_finite:
  assumes "\<bar>x\<bar> < 10 ^ 21"
  shows "toFixed nts (Fin x) f = (if x < 0 then ''-'' else []) @ fixed_digits \<bar>x\<bar> f"
  using assms by (simp add: Let_def abs_if)

lemma toFixed_12_5: "toFixed nts (Fin (25 / 2)) 2 = ''12.50''"
  by (simp add: toFixed_finite fixed_digits_12_5)

lemma build_numeric:
  "roiAmount a = JNum x \<Longrightarrow>
     build_mailOptions me a
       = Inr \<lparr>mail_from = EMAIL_USER me, mail_to = email a,
              subject = ''Daily ROI Credit - Gratoms'',
              html = roi_html me a (toFixed (numberToString me) x 2)\<rparr>"
  by (simp add: build_mailOptions_def)

lemma build_not_numeric:
  "(\<forall>x. roiAmount a \<noteq> JNum x) \<Longrightarrow> build_mailOptions me a = Inl TypeError"
  by (cases "roiAmount a") (simp_all add: build_mailOptions_def)

lemma toFixed_large:
  assumes "10 ^ 21 \<le> \<bar>x\<bar>"
  shows "toFixed nts (Fin x) f = (if x < 0 then ''-'' else []) @ nts \<bar>x\<bar>"
  using assms by (simp add: Let_def abs_if)

text \<open>
  The amount as it stands in the text of the mail: \<open>12.50\<close> for 12.5 whatever the other
  fields are, and the default string of a number that is not finite or is \<open>10^21\<close> or more
  in absolute value.
\<close>

lemma roi_html_12_5:
  assumes r: "roiAmount a = JNum (Fin (25 / 2))"
  shows "map_sum id html (build_mailOptions me a) = Inr (roi_html me a ''12.50'')"
  by (simp only: build_numeric [OF r] toFixed_12_5) simp

lemma roi_html_not_finite:
  "roiAmount a = JNum NaN \<Longrightarrow>
     map_sum id html (build_mailOptions me a) = Inr (roi_html me a ''NaN'')"
  "roiAmount a = JNum PosInf \<Longrightarrow>
     map_sum id html (build_mailOptions me a) = Inr (roi_html me a ''Infinity'')"
  "roiAmount a = JNum NegInf \<Longrightarrow>
     map_sum id html (build_mailOptions me a) = Inr (roi_html me a ''-Infinity'')"
  by (simp_all add: build_mailOptions_def)

lemma roi_html_large:
  assumes r: "roiAmount a = JNum (Fin x)" and l: "10 ^ 21 \<le> \<bar>x\<bar>"
  shows "map_sum id html (build_mailOptions me a)
           = Inr (roi_html me a ((if x < 0 then ''-'' else []) @ numberToString me \<bar>x\<bar>))"
  by (simp only: build_numeric [OF r] toFixed_large [OF l]) simp

lemmas ex_mail_defs = ex_mail_env_def ex_args_def

section \<open>The amount in the mail\<close>

text \<open>
  C8. For the amount 12.5 the text put into the mail is the template with \<open>12.50\<close> at its
  two places, the summary and the ROI Amount row, and \<open>12.50 USD\<close> occurs in it exactly
  twice when it occurs in none of the other values put into the template (plan name,
  transaction id, investment id, rendered date). For every finite amount below \<open>10^21\<close> in
  absolute value the amount is put in as an optional minus sign, at least one digit, a point
  and exactly two digits; the digits are those of the absolute value in hundredths, rounded
  to the nearest, a half upwards.
\<close>

theorem roi_amount_embedded:
  "(roiAmount a = JNum (Fin (25 / 2))
      \<and> count_sub ''12.50 USD'' (planName a) = 0
      \<and> count_sub ''12.50 USD'' (transactionId a) = 0
      \<and> count_sub ''12.50 USD'' (investmentId a) = 0
      \<and> count_sub ''12.50 USD'' (toLocaleDateString me (date a)) = 0 \<longrightarrow>
      (\<exists>m. build_mailOptions me a = Inr m \<and> html m = roi_html me a ''12.50''
         \<and> count_sub ''12.50 USD'' (html m) = 2))
   \<and> (roiAmount a = JNum (Fin x) \<and> \<bar>x\<bar> < 10 ^ 21 \<longrightarrow>
      (\<exists>m ip fp. build_mailOptions me a = Inr m
         \<and> html m = roi_html me a ((if x < 0 then ''-'' else []) @ ip @ ''.'' @ fp)
         \<and> ip \<noteq> [] \<and> length fp = 2
         \<and> (\<forall>c \<in> set (ip @ fp). c \<in> set ''0123456789'')
         \<and> digits_value (ip @ fp) = nat \<lfloor>\<bar>x\<bar> * 10 ^ 2 + 1 / 2\<rfloor>))"
proof (intro conjI impI)
  assume h: "roiAmount a = JNum (Fin (25 / 2))
      \<and> count_sub ''12.50 USD'' (planName a) = 0
      \<and> count_sub ''12.50 USD'' (transactionId a) = 0
      \<and> count_sub ''12.50 USD'' (investmentId a) = 0
      \<and> count_sub ''12.50 USD'' (toLocaleDateString me (date a)) = 0"
  then have b: "build_mailOptions me a
       = Inr \<lparr>mail_from = EMAIL_USER me, mail_to = email a,
              subject = ''Daily ROI Credit - Gratoms'', html = roi_html me a ''12.50''\<rparr>"
    by (simp only: build_numeric toFixed_12_5)
  from h have c: "count_sub ''12.50 USD'' (planName a) = 0"
    "count_sub ''12.50 USD'' (transactionId a) = 0"
    "count_sub ''12.50 USD'' (investmentId a) = 0"
    "count_sub ''12.50 USD'' (toLocaleDateString me (date a)) = 0"
    by simp_all
  have "count_sub ''12.50 USD'' (roi_html me a ''12.50'') = 2"
    by (simp only: count_roi_html count_12_50 c)
  with b show "\<exists>m. build_mailOptions me a = Inr m \<and> html m = roi_html me a ''12.50''
         \<and> count_sub ''12.50 USD'' (html m) = 2"
    by simp
next
  assume h: "roiAmount a = JNum (Fin x) \<and> \<bar>x\<bar> < 10 ^ 21"
  from fixed_digits_shape [of 2 "\<bar>x\<bar>"] obtain ip fp where
    s: "fixed_digits \<bar>x\<bar> 2 = ip @ ''.'' @ fp" "ip \<noteq> []" "length fp = 2"
       "\<forall>c \<in> set (ip @ fp). c \<in> set ''0123456789''"
       "digits_value (ip @ fp) = nat \<lfloor>\<bar>x\<bar> * 10 ^ 2 + 1 / 2\<rfloor>"
    by auto
  from h have r: "roiAmount a = JNum (Fin x)" and lt: "\<bar>x\<bar> < 10 ^ 21" by simp_all
  have "build_mailOptions me a
       = Inr \<lparr>mail_from = EMAIL_USER me, mail_to = email a,
              subject = ''Daily ROI Credit - Gratoms'',
              html = roi_html me a ((if x < 0 then ''-'' else []) @ ip @ ''.'' @ fp)\<rparr>"
    by (simp only: build_numeric [OF r] toFixed_finite [OF lt] s(1))
  with s(2,3,4,5) show "\<exists>m ip fp. build_mailOptions me a = Inr m
         \<and> html m = roi_html me a ((if x < 0 then ''-'' else []) @ ip @ ''.'' @ fp)
         \<and> ip \<noteq> [] \<and> length fp = 2
         \<and> (\<forall>c \<in> set (ip @ fp). c \<in> set ''0123456789'')
         \<and> digits_value (ip @ fp) = nat \<lfloor>\<bar>x\<bar> * 10 ^ 2 + 1 / 2\<rfloor>"
    by (intro exI [of _ "\<lparr>mail_from = EMAIL_USER me, mail_to = email a,
              subject = ''Daily ROI Credit - Gratoms'',
              html = roi_html me a ((if x < 0 then ''-'' else []) @ ip @ ''.'' @ fp)\<rparr>"]
           exI [of _ ip] exI [of _ fp]) simp
qed

theorem roi_amount_embedded_witness:
  "roiAmount (ex_args ''Gold'' (JNum (Fin (25 / 2)))) = JNum (Fin (25 / 2))
   \<and> count_sub ''12.50 USD'' (planName (ex_args ''Gold'' (JNum (Fin (25 / 2))))) = 0
   \<and> \<bar>25 / 2 :: rat\<bar> < 10 ^ 21
   \<and> (\<exists>m. build_mailOptions ex_mail_env (ex_args ''Gold'' (JNum (Fin (25 / 2)))) = Inr m
        \<and> html m = roi_html ex_mail_env (ex_args ''Gold'' (JNum (Fin (25 / 2)))) ''12.50''
        \<and> count_sub ''12.50 USD'' (html m) = 2)
   \<and> (\<exists>m ip fp. build_mailOptions ex_mail_env (ex_args ''Gold'' (JNum (Fin (25 / 2)))) = Inr m
        \<and> html m = roi_html ex_mail_env (ex_args ''Gold'' (JNum (Fin (25 / 2))))
                     (ip @ ''.'' @ fp)
        \<and> ip \<noteq> [] \<and> length fp = 2 \<and> digits_value (ip @ fp) = 1250)"
proof -
  let ?a = "ex_args ''Gold'' (JNum (Fin (25 / 2)))"
  have h: "roiAmount ?a = JNum (Fin (25 / 2))"
    "count_sub ''12.50 USD'' (planName ?a) = 0"
    "count_sub ''12.50 USD'' (transactionId ?a) = 0"
    "count_sub ''12.50 USD'' (investmentId ?a) = 0"
    "count_sub ''12.50 USD'' (toLocaleDateString ex_mail_env (date ?a)) = 0"
    by (simp_all add: ex_mail_defs count_sub.simps)
  have b: "\<bar>25 / 2 :: rat\<bar> < 10 ^ 21" "\<not> (25 / 2 :: rat) < 0"
    "nat \<lfloor>\<bar>25 / 2 :: rat\<bar> * 10 ^ 2 + 1 / 2\<rfloor> = 1250"
    using round_12_5 by simp_all
  note t = roi_amount_embedded [of ?a ex_mail_env "25 / 2"]
  from t h have 1: "\<exists>m. build_mailOptions ex_mail_env ?a = Inr m
        \<and> html m = roi_html ex_mail_env ?a ''12.50''
        \<and> count_sub ''12.50 USD'' (html m) = 2"
    by blast
  from t h(1) b(1) have "\<exists>m ip fp. build_mailOptions ex_mail_env ?a = Inr m
         \<and> html m = roi_html ex_mail_env ?a
               ((if (25 / 2 :: rat) < 0 then ''-'' else []) @ ip @ ''.'' @ fp)
         \<and> ip \<noteq> [] \<and> length fp = 2
         \<and> (\<forall>c \<in> set (ip @ fp). c \<in> set ''0123456789'')
         \<and> digits_value (ip @ fp) = nat \<lfloor>\<bar>25 / 2 :: rat\<bar> * 10 ^ 2 + 1 / 2\<rfloor>"
    by blast
  then have 2: "\<exists>m ip fp. build_mailOptions ex_mail_env ?a = Inr m
        \<and> html m = roi_html ex_mail_env ?a (ip @ ''.'' @ fp)
        \<and> ip \<noteq> [] \<and> length fp = 2 \<and> digits_value (ip @ fp) = 1250"
    using b(2,3) by (simp only: if_False append_Nil) blast
  from h(1,2) b(1) 1 2 show ?thesis by blast
qed

text \<open>
  Without these provisos the claim fails: a plan named \<open>12.50 USD\<close> gives four
  occurrences, and the amount NaN is put in as \<open>NaN\<close>.
\<close>

theorem roi_amount_counterexample:
  "(\<exists>m. build_mailOptions ex_mail_env (ex_args ''12.50 USD'' (JNum (Fin (25 / 2)))) = Inr m
        \<and> count_sub ''12.50 USD'' (html m) = 4)
   \<and> (\<exists>m. build_mailOptions ex_mail_env (ex_args ''Gold'' (JNum NaN)) = Inr m
        \<and> html m = roi_html ex_mail_env (ex_args ''Gold'' (JNum NaN)) ''NaN'')"
proof -
  let ?a = "ex_args ''12.50 USD'' (JNum (Fin (25 / 2)))"
  have h: "roiAmount ?a = JNum (Fin (25 / 2))"
    "count_sub ''12.50 USD'' (planName ?a) = 1"
    "count_sub ''12.50 USD'' (transactionId ?a) = 0"
    "count_sub ''12.50 USD'' (investmentId ?a) = 0"
    "count_sub ''12.50 USD'' (toLocaleDateString ex_mail_env (date ?a)) = 0"
    by (simp_all add: ex_mail_defs count_sub.simps)
  have "count_sub ''12.50 USD'' (roi_html ex_mail_env ?a ''12.50'') = 4"
    by (simp only: count_roi_html count_12_50 h)
  then have 1: "\<exists>m. build_mailOptions ex_mail_env ?a = Inr m
                   \<and> count_sub ''12.50 USD'' (html m) = 4"
    by (simp only: build_numeric [OF h(1)] toFixed_12_5) simp
  have 2: "\<exists>m. build_mailOptions ex_mail_env (ex_args ''Gold'' (JNum NaN)) = Inr m
        \<and> html m = roi_html ex_mail_env (ex_args ''Gold'' (JNum NaN)) ''NaN''"
    by (simp add: build_mailOptions_def ex_args_def)
  from 1 2 show ?thesis by simp
qed

section \<open>Failure to send\<close>

text \<open>
  C9. For a numeric amount, as the contract of the formatter has it, the options are built
  and handed to \<^verbatim>\<open>sendMail\<close> exactly once, with no retry. The formatter throws the generic
  error to its caller exactly when \<^verbatim>\<open>sendMail\<close> rejects, and then the cause is what it logged;
  it returns normally, with no error, exactly when \<^verbatim>\<open>sendMail\<close> resolves.
\<close>

theorem roi_send_failure:
  assumes numeric: "roiAmount a = JNum x"
  shows "\<exists>m. build_mailOptions me a = Inr m
           \<and> mail_from m = EMAIL_USER me \<and> mail_to m = email a
           \<and> subject m = ''Daily ROI Credit - Gratoms''
           \<and> html m = roi_html me a (toFixed (numberToString me) x 2)
           \<and> sent (roiAccrualEmail me a) = [m]
           \<and> (outcome (roiAccrualEmail me a) = Inl (Error ''Failed to send ROI email'')
                \<longleftrightarrow> sendMail me m \<noteq> None)
           \<and> (outcome (roiAccrualEmail me a) = Inr () \<longleftrightarrow> sendMail me m = None)
           \<and> (\<forall>cause. sendMail me m = Some cause \<longrightarrow>
                  logs (roiAccrualEmail me a)
                    = [ConsoleError ''ROI email sending error:'' cause])
           \<and> (sendMail me m = None \<longrightarrow>
                  logs (roiAccrualEmail me a)
                    = [ConsoleLog (''ROI accrual email sent to '' @ email a
                                    @ '' for transaction '' @ transactionId a)])"
proof -
  let ?m = "\<lparr>mail_from = EMAIL_USER me, mail_to = email a,
             subject = ''Daily ROI Credit - Gratoms'',
             html = roi_html me a (toFixed (numberToString me) x 2)\<rparr>"
  have b: "build_mailOptions me a = Inr ?m" by (rule build_numeric [OF numeric])
  have r: "sent (roiAccrualEmail me a) = [?m]
           \<and> (outcome (roiAccrualEmail me a) = Inl (Error ''Failed to send ROI email'')
                \<longleftrightarrow> sendMail me ?m \<noteq> None)
           \<and> (outcome (roiAccrualEmail me a) = Inr () \<longleftrightarrow> sendMail me ?m = None)
           \<and> (\<forall>cause. sendMail me ?m = Some cause \<longrightarrow>
                  logs (roiAccrualEmail me a)
                    = [ConsoleError ''ROI email sending error:'' cause])
           \<and> (sendMail me ?m = None \<longrightarrow>
                  logs (roiAccrualEmail me a)
                    = [ConsoleLog (''ROI accrual email sent to '' @ email a
                                    @ '' for transaction '' @ transactionId a)])"
    by (cases "sendMail me ?m") (simp_all add: roiAccrualEmail_def b)
  show ?thesis
    by (rule exI [of _ ?m]) (use b r in simp)
qed

theorem roi_send_failure_witness:
  "roiAmount (ex_args ''Gold'' (JNum (Fin (25 / 2)))) = JNum (Fin (25 / 2))
   \<and> outcome (roiAccrualEmail ex_mail_env_failing (ex_args ''Gold'' (JNum (Fin (25 / 2)))))
       = Inl (Error ''Failed to send ROI email'')
   \<and> logs (roiAccrualEmail ex_mail_env_failing (ex_args ''Gold'' (JNum (Fin (25 / 2)))))
       = [ConsoleError ''ROI email sending error:'' (TransportError ''ECONNREFUSED'')]
   \<and> length (sent (roiAccrualEmail ex_mail_env_failing
                        (ex_args ''Gold'' (JNum (Fin (25 / 2)))))) = 1
   \<and> outcome (roiAccrualEmail ex_mail_env (ex_args ''Gold'' (JNum (Fin (25 / 2))))) = Inr ()
   \<and> logs (roiAccrualEmail ex_mail_env (ex_args ''Gold'' (JNum (Fin (25 / 2)))))
       = [ConsoleLog ''ROI accrual email sent to ann@example.com for transaction tx-9'']
   \<and> length (sent (roiAccrualEmail ex_mail_env (ex_args ''Gold'' (JNum (Fin (25 / 2)))))) = 1"
proof -
  let ?a = "ex_args ''Gold'' (JNum (Fin (25 / 2)))"
  have n: "roiAmount ?a = JNum (Fin (25 / 2))" by (simp add: ex_args_def)
  have f: "\<And>m. sendMail ex_mail_env_failing m = Some (TransportError ''ECONNREFUSED'')"
    and g: "\<And>m. sendMail ex_mail_env m = None"
    by (simp_all add: ex_mail_env_failing_def ex_mail_env_def)
  have e: "email ?a = ''ann@example.com''" "transactionId ?a = ''tx-9''"
    by (simp_all add: ex_args_def)
  from roi_send_failure [OF n, of ex_mail_env_failing] f
  have 1: "outcome (roiAccrualEmail ex_mail_env_failing ?a)
             = Inl (Error ''Failed to send ROI email'')
         \<and> logs (roiAccrualEmail ex_mail_env_failing ?a)
             = [ConsoleError ''ROI email sending error:'' (TransportError ''ECONNREFUSED'')]
         \<and> length (sent (roiAccrualEmail ex_mail_env_failing ?a)) = 1"
    by auto
  from roi_send_failure [OF n, of ex_mail_env] g
  have "outcome (roiAccrualEmail ex_mail_env ?a) = Inr ()
         \<and> logs (roiAccrualEmail ex_mail_env ?a)
             = [ConsoleLog (''ROI accrual email sent to '' @ email ?a
                             @ '' for transaction '' @ transactionId ?a)]
         \<and> length (sent (roiAccrualEmail ex_mail_env ?a)) = 1"
    by auto
  then have 2: "outcome (roiAccrualEmail ex_mail_env ?a) = Inr ()
         \<and> logs (roiAccrualEmail ex_mail_env ?a)
             = [ConsoleLog ''ROI accrual email sent to ann@example.com for transaction tx-9'']
         \<and> length (sent (roiAccrualEmail ex_mail_env ?a)) = 1"
    by (simp only: e) simp
  from n 1 2 show ?thesis by blast
qed

text \<open>
  Outside that contract, with an amount that is not a number, \<^verbatim>\<open>roiAmount.toFixed(2)\<close> throws
  inside the \<^verbatim>\<open>try\<close>: nothing is handed to \<^verbatim>\<open>sendMail\<close>, the TypeError is logged and the
  caller gets the same generic error.
\<close>

lemma roi_not_numeric:
  assumes "\<forall>x. roiAmount a \<noteq> JNum x"
  shows "outcome (roiAccrualEmail me a) = Inl (Error ''Failed to send ROI email'')"
    and "sent (roiAccrualEmail me a) = []"
    and "logs (roiAccrualEmail me a) = [ConsoleError ''ROI email sending error:'' TypeError]"
  using build_not_numeric [OF assms, of me] by (simp_all add: roiAccrualEmail_def)

end
